theory Spec2Isabelle
  imports Complex_Main "HOL-Library.Product_Lexorder" "HOL-Library.List_Lexorder"
    "HOL-Library.Char_ord" "HOL-Library.Multiset"
begin

section \<open>Merge actions and the storage budget (models/actions.py, merge_engine.py)\<close>

text \<open>
  A path is modelled by the list of the segments of its absolute, normalised form: what
  \<open>os.path.abspath\<close> returns, split at \<open>os.sep\<close>. The root directory is the empty list.
  Characters are code points; the model covers the code points below 256.
\<close>

type_synonym path = "string list"

text \<open>
  The four dataclasses deriving from \<open>MergeAction\<close>. The \<open>type\<close> tag of the
  dataclass is the constructor; \<open>isinstance\<close> is a test on the constructor.
\<close>

datatype merge_action =
    CreateFolderAction (folder_path: path)
  | MoveMasterAction (src: path) (dst: path) (sha256_of: "string option") (size_of: int)
      (review_reason_of: "string option")
  | MoveToQuarantineExactAction (src: path) (dst: path) (sha256_of: "string option") (size_of: int)
  | MarkNearDuplicateAction (src: path) (master_path: path) (sha256_of: "string option")
      (size_of: int)

text \<open>\<open>isinstance(action, (MoveMasterAction, MoveToQuarantineExactAction))\<close>\<close>

fun is_move_action :: "merge_action \<Rightarrow> bool" where
  "is_move_action (MoveMasterAction _ _ _ _ _) = True"
| "is_move_action (MoveToQuarantineExactAction _ _ _ _) = True"
| "is_move_action _ = False"

text \<open>
  \<open>_calculate_storage\<close>: the generator expression
  \<open>sum(action.size for action in actions if isinstance(action, (...)))\<close>, a left-to-right
  accumulation starting at 0. The free space of the destination is a query of the
  operating system; it is passed in as \<open>destination_free\<close>.
\<close>

fun sum_move_sizes :: "int \<Rightarrow> merge_action list \<Rightarrow> int" where
  "sum_move_sizes acc [] = acc"
| "sum_move_sizes acc (a # as) =
     sum_move_sizes (if is_move_action a then acc + size_of a else acc) as"

definition calculate_storage :: "merge_action list \<Rightarrow> int \<Rightarrow> int \<times> int" where
  "calculate_storage actions destination_free = (sum_move_sizes 0 actions, destination_free)"

definition required_space :: "merge_action list \<Rightarrow> int" where
  "required_space actions = fst (calculate_storage actions 0)"

text \<open>The sizes of the actions of one kind, as the specification counts them.\<close>

fun is_move_master :: "merge_action \<Rightarrow> bool" where
  "is_move_master (MoveMasterAction _ _ _ _ _) = True"
| "is_move_master _ = False"

fun is_quarantine :: "merge_action \<Rightarrow> bool" where
  "is_quarantine (MoveToQuarantineExactAction _ _ _ _) = True"
| "is_quarantine _ = False"

definition total_size :: "(merge_action \<Rightarrow> bool) \<Rightarrow> merge_action list \<Rightarrow> int" where
  "total_size P actions = sum_list (map size_of (filter P actions))"

section \<open>Python strings (code points below 256)\<close>

text \<open>\<open>\d\<close> of \<open>re\<close> and the digits \<open>int()\<close> reads: the decimal digits (category Nd).\<close>

definition is_decimal :: "char \<Rightarrow> bool" where
  "is_decimal c = (c \<in> set ''0123456789'')"

text \<open>
  \<open>str.isdigit\<close> on one character: the decimal digits and the superscripts
  U+00B2, U+00B3, U+00B9, which \<open>int()\<close> does not read.
\<close>

definition isdigit_char :: "char \<Rightarrow> bool" where
  "isdigit_char c = (is_decimal c \<or> c \<in> set [CHR 0xB2, CHR 0xB3, CHR 0xB9])"

definition isdigit :: "string \<Rightarrow> bool" where
  "isdigit s = (s \<noteq> [] \<and> list_all isdigit_char s)"

text \<open>\<open>str.isspace\<close> on one character, the set \<open>str.strip()\<close> removes.\<close>

definition isspace_char :: "char \<Rightarrow> bool" where
  "isspace_char c =
     (c \<in> set [CHR 0x09, CHR 0x0A, CHR 0x0B, CHR 0x0C, CHR 0x0D, CHR 0x1C, CHR 0x1D, CHR 0x1E,
               CHR 0x1F, CHR 0x20, CHR 0x85, CHR 0xA0])"

definition strip :: "string \<Rightarrow> string" where
  "strip s = rev (dropWhile isspace_char (rev (dropWhile isspace_char s)))"

text \<open>\<open>str.lower\<close>: the letters A to Z and the capital letters U+00C0 to U+00DE.\<close>

definition upper_letters :: string where
  "upper_letters = ''ABCDEFGHIJKLMNOPQRSTUVWXYZ'' @
     [CHR 0xC0, CHR 0xC1, CHR 0xC2, CHR 0xC3, CHR 0xC4, CHR 0xC5, CHR 0xC6, CHR 0xC7,
      CHR 0xC8, CHR 0xC9, CHR 0xCA, CHR 0xCB, CHR 0xCC, CHR 0xCD, CHR 0xCE, CHR 0xCF,
      CHR 0xD0, CHR 0xD1, CHR 0xD2, CHR 0xD3, CHR 0xD4, CHR 0xD5, CHR 0xD6, CHR 0xD8,
      CHR 0xD9, CHR 0xDA, CHR 0xDB, CHR 0xDC, CHR 0xDD, CHR 0xDE]"

definition lower_letters :: string where
  "lower_letters = ''abcdefghijklmnopqrstuvwxyz'' @
     [CHR 0xE0, CHR 0xE1, CHR 0xE2, CHR 0xE3, CHR 0xE4, CHR 0xE5, CHR 0xE6, CHR 0xE7,
      CHR 0xE8, CHR 0xE9, CHR 0xEA, CHR 0xEB, CHR 0xEC, CHR 0xED, CHR 0xEE, CHR 0xEF,
      CHR 0xF0, CHR 0xF1, CHR 0xF2, CHR 0xF3, CHR 0xF4, CHR 0xF5, CHR 0xF6, CHR 0xF8,
      CHR 0xF9, CHR 0xFA, CHR 0xFB, CHR 0xFC, CHR 0xFD, CHR 0xFE]"

definition lower_char :: "char \<Rightarrow> char" where
  "lower_char c = (case map_of (zip upper_letters lower_letters) c of Some l \<Rightarrow> l | None \<Rightarrow> c)"

definition lower :: "string \<Rightarrow> string" where
  "lower s = map lower_char s"

text \<open>\<open>str.startswith\<close>\<close>

definition startswith :: "string \<Rightarrow> string \<Rightarrow> bool" where
  "startswith s p = (take (length p) s = p)"

text \<open>The value of a string of decimal digits, as \<open>int()\<close> reads it.\<close>

definition digit_value :: "char \<Rightarrow> int" where
  "digit_value c =
     (case map_of (zip ''0123456789'' [0, 1, 2, 3, 4, 5, 6, 7, 8, 9]) c of Some v \<Rightarrow> v | None \<Rightarrow> 0)"

definition decimal_value :: "string \<Rightarrow> int" where
  "decimal_value s = foldl (\<lambda>acc c. 10 * acc + digit_value c) 0 s"

text \<open>\<open>str(n)\<close> and the formats \<open>{n:02d}\<close>, \<open>{n:04d}\<close> of an integer.\<close>

fun nat_digits :: "nat \<Rightarrow> string" where
  "nat_digits n =
     (if n < 10 then [''0123456789'' ! n] else nat_digits (n div 10) @ [''0123456789'' ! (n mod 10)])"

definition str_int :: "int \<Rightarrow> string" where
  "str_int n = (if n < 0 then CHR ''-'' # nat_digits (nat (- n)) else nat_digits (nat n))"

definition format_0d :: "nat \<Rightarrow> int \<Rightarrow> string" where
  "format_0d width n =
     (if n < 0 then CHR ''-'' # replicate (width - 1 - length (nat_digits (nat (- n)))) CHR ''0''
                      @ nat_digits (nat (- n))
      else replicate (width - length (nat_digits (nat n))) CHR ''0'' @ nat_digits (nat n))"

section \<open>File records (models/fileinfo.py)\<close>

text \<open>
  A naive \<open>datetime\<close>: year, month, day, hour, minute, second, microsecond. Python
  compares two of them as these tuples, which is the lexicographic order of the product.
\<close>

type_synonym datetime = "int \<times> int \<times> int \<times> int \<times> int \<times> int \<times> int"



text \<open>
  The proleptic Gregorian ordinal of a date and the microseconds of a datetime since
  the start of day 0, as \<open>datetime.__sub__\<close> computes the difference of two datetimes.
\<close>

definition is_leap :: "int \<Rightarrow> bool" where
  "is_leap y = (y mod 4 = 0 \<and> (y mod 100 \<noteq> 0 \<or> y mod 400 = 0))"

definition days_before_year :: "int \<Rightarrow> int" where
  "days_before_year y = (y - 1) * 365 + (y - 1) div 4 - (y - 1) div 100 + (y - 1) div 400"

definition days_before_month :: "int \<Rightarrow> int \<Rightarrow> int" where
  "days_before_month y m =
     (if 1 \<le> m \<and> m \<le> 12
      then [0, 31, 59, 90, 120, 151, 181, 212, 243, 273, 304, 334] ! nat (m - 1)
           + (if m > 2 \<and> is_leap y then 1 else 0)
      else 0)"

fun microseconds :: "datetime \<Rightarrow> int" where
  "microseconds (y, mo, d, h, mi, s, us) =
     (((days_before_year y + days_before_month y mo + d) * 86400 + h * 3600 + mi * 60 + s)
        * 1000000 + us)"

text \<open>\<open>(a - b).total_seconds()\<close>\<close>

definition total_seconds_between :: "datetime \<Rightarrow> datetime \<Rightarrow> real" where
  "total_seconds_between a b = real_of_int (microseconds a - microseconds b) / 1000000"

text \<open>
  The dataclass \<open>FileInfo\<close>. \<open>__eq__\<close> and \<open>__hash__\<close> look at \<open>path\<close> only, so a
  dictionary keyed by records is a dictionary keyed by paths.
\<close>

record fileinfo =
  path :: path
  file_size :: int
  format :: string
  resolution :: "(int \<times> int) option"
  exif_datetime :: "datetime option"
  exif_gps :: "(real \<times> real) option"
  exif_camera :: "string option"
  exif_orientation :: "string option"
  sha256 :: "string option"
  phash :: "string option"
  is_raw :: bool
  timestamp_reliable :: bool
  review_reason :: "string option"
  selection_reason :: "string option"

text \<open>Truth value of an optional string: \<open>None\<close> and \<open>""\<close> are false.\<close>

fun truthy :: "string option \<Rightarrow> bool" where
  "truthy None = False"
| "truthy (Some s) = (s \<noteq> [])"

section \<open>Perceptual hash distance (hashing.py)\<close>

text \<open>
  \<open>int(s, 16)\<close>: surrounding white space, a sign, the prefix \<open>0x\<close>, then hexadecimal
  digits with single underscores between them; \<open>None\<close> is \<open>ValueError\<close>.
\<close>

definition int_space :: "char \<Rightarrow> bool" where
  "int_space c =
     (c \<in> set [CHR 0x09, CHR 0x0A, CHR 0x0B, CHR 0x0C, CHR 0x0D, CHR 0x20, CHR 0x85, CHR 0xA0])"

definition hex_value :: "char \<Rightarrow> int option" where
  "hex_value c =
     map_of (zip ''0123456789abcdefABCDEF''
               [0, 1, 2, 3, 4, 5, 6, 7, 8, 9, 10, 11, 12, 13, 14, 15, 10, 11, 12, 13, 14, 15]) c"

fun double_underscore :: "string \<Rightarrow> bool" where
  "double_underscore (a # b # r) = ((a = CHR ''_'' \<and> b = CHR ''_'') \<or> double_underscore (b # r))"
| "double_underscore _ = False"

definition hex_run_value :: "string \<Rightarrow> int" where
  "hex_run_value run =
     foldl (\<lambda>acc c. case hex_value c of Some v \<Rightarrow> 16 * acc + v | None \<Rightarrow> acc) 0 run"

definition int_base16 :: "string \<Rightarrow> int option" where
  "int_base16 s =
     (let s1 = dropWhile int_space s;
          sgn_rest = (case s1 of
                        c # r \<Rightarrow> if c = CHR ''-'' then (- 1, r) else if c = CHR ''+'' then (1, r)
                                 else (1, s1)
                      | [] \<Rightarrow> (1 :: int, s1));
          s2 = snd sgn_rest;
          s3 = (case s2 of
                  z # x # r \<Rightarrow>
                    if z = CHR ''0'' \<and> (x = CHR ''x'' \<or> x = CHR ''X'')
                    then (case r of u # r' \<Rightarrow> if u = CHR ''_'' then r' else r | [] \<Rightarrow> r)
                    else s2
                | _ \<Rightarrow> s2);
          run = takeWhile (\<lambda>c. hex_value c \<noteq> None \<or> c = CHR ''_'') s3;
          rest = dropWhile (\<lambda>c. hex_value c \<noteq> None \<or> c = CHR ''_'') s3
      in if run = [] \<or> hd run = CHR ''_'' \<or> last run = CHR ''_'' \<or> double_underscore run
            \<or> \<not> list_all int_space rest
         then None
         else Some (fst sgn_rest * hex_run_value run))"

text \<open>\<open>int.bit_count()\<close>: the number of ones in the binary form of the absolute value.\<close>

fun bit_count_nat :: "nat \<Rightarrow> nat" where
  "bit_count_nat n = (if n = 0 then 0 else n mod 2 + bit_count_nat (n div 2))"

definition bit_count :: "int \<Rightarrow> int" where
  "bit_count i = int (bit_count_nat (nat \<bar>i\<bar>))"

text \<open>
  \<open>phash_distance\<close>: the Hamming distance of the two hashes read as hexadecimal numbers;
  when either does not parse, the longer length, or the number of differing positions
  of two strings of equal length.
\<close>

definition phash_distance :: "string \<Rightarrow> string \<Rightarrow> int" where
  "phash_distance a b =
     (case (int_base16 a, int_base16 b) of
        (Some int_a, Some int_b) \<Rightarrow> bit_count (Bit_Operations.xor int_a int_b)
      | _ \<Rightarrow> if length a \<noteq> length b then int (max (length a) (length b))
             else int (length (filter (\<lambda>(ch1, ch2). ch1 \<noteq> ch2) (zip a b))))"

section \<open>Near-duplicate predicate (duplicates.py)\<close>

text \<open>
  The exceptions of the program. \<open>path_violation_message\<close> returns one of three
  messages; the structured errors carry what their message names.
\<close>

datatype violation = Escapes path | ResolvesOutside path | SymlinkUnder path

datatype plan_problem =
    RootIsSymlink path
  | RootIsFile
  | UnsafeEntry violation
  | EntryNotDirectory string
  | NotAYearFolder string
  | MonthNotDirectory string string
  | NotAYearMonth string string

datatype error =
    KeyError string
  | ValueError string
  | RecursionError
  | DuplicateDetectionError string
  | MergePlanError plan_problem
  | UnsafePath violation
  | CannotCreateDirectory path
  | BaseIsSymlink path
  | FolderOutside path
  | InvalidYearFolder string
  | InvalidYearMonthFolder string string
  | HashingError path
  | UnresolvableCollision path path
  | FailedToMove path path
  | HashMismatch path
  | MergeExecutionError error
  | UndoInputError string
  | UndoSafetyError string

text \<open>\<open>SENSITIVITY_THRESHOLDS[name]\<close>: the pair (strong, weak), \<open>KeyError\<close> otherwise.\<close>

definition PHASH_STRONG :: int where
  "PHASH_STRONG = 2"

definition PHASH_WEAK :: int where
  "PHASH_WEAK = 5"

definition SENSITIVITY_THRESHOLDS :: "string \<Rightarrow> error + (int \<times> int)" where
  "SENSITIVITY_THRESHOLDS name =
     (if name = ''conservative'' then Inr (PHASH_STRONG, PHASH_WEAK)
      else if name = ''balanced'' then Inr (3, 7)
      else if name = ''aggressive'' then Inr (4, 10)
      else Inl (KeyError name))"

definition normalize_sensitivity :: "string option \<Rightarrow> string" where
  "normalize_sensitivity v =
     (if \<not> truthy v then ''conservative''
      else let normalized = lower (strip (the v))
           in if normalized = ''conservative'' \<or> normalized = ''balanced''
                 \<or> normalized = ''aggressive''
              then normalized else ''conservative'')"

text \<open>\<open>max(area_a, area_b) / min(area_a, area_b)\<close> and the timestamp difference.\<close>

definition area :: "int \<times> int \<Rightarrow> int" where
  "area r = fst r * snd r"

definition area_ratio :: "int \<Rightarrow> int \<Rightarrow> real" where
  "area_ratio area_a area_b = real_of_int (max area_a area_b) / real_of_int (min area_a area_b)"

definition delta_seconds :: "datetime \<Rightarrow> datetime \<Rightarrow> real" where
  "delta_seconds ta tb = \<bar>total_seconds_between ta tb\<bar>"

text \<open>
  The weak band of \<open>are_near_duplicates\<close>: the checks in the order of the source, each
  with the reason it hands to \<open>emit\<close>. A tuple and a datetime are always true, so the
  tests \<open>a.resolution and b.resolution\<close> and \<open>a.exif_datetime and b.exif_datetime\<close>
  test for \<open>None\<close>. Python divides and compares in binary floating point; the model
  compares the exact quotients, which decides \<open>ratio > 1.3\<close> the same way for areas
  below 2^49 and \<open>delta_seconds > 60\<close> the same way for every pair of datetimes.
\<close>

definition weak_band_checks :: "fileinfo \<Rightarrow> fileinfo \<Rightarrow> bool \<times> string" where
  "weak_band_checks a b =
     (case (resolution a, resolution b) of
        (Some ra, Some rb) \<Rightarrow>
          if area ra = 0 \<or> area rb = 0 then (False, ''resolution_zero'')
          else if area_ratio (area ra) (area rb) > 1.3 then (False, ''resolution_ratio_exceeded'')
          else (case (exif_datetime a, exif_datetime b) of
                  (Some ta, Some tb) \<Rightarrow>
                    if delta_seconds ta tb > 60 then (False, ''timestamp_delta_exceeded'')
                    else if truthy (exif_camera a) \<and> truthy (exif_camera b)
                            \<and> exif_camera a \<noteq> exif_camera b
                         then (False, ''camera_mismatch'')
                         else (True, ''distance_weak_band'')
                | _ \<Rightarrow> (False, ''timestamp_missing''))
      | _ \<Rightarrow> (False, ''resolution_missing''))"

text \<open>
  \<open>are_near_duplicates\<close> with the decision and the reason of the one \<open>emit\<close> call made
  on each path; the Boolean result of the source is the first component.
\<close>

definition near_dup :: "fileinfo \<Rightarrow> fileinfo \<Rightarrow> string option \<Rightarrow> error + (bool \<times> string)" where
  "near_dup a b sensitivity =
     (case SENSITIVITY_THRESHOLDS (normalize_sensitivity sensitivity) of
        Inl e \<Rightarrow> Inl e
      | Inr (strong_threshold, weak_threshold) \<Rightarrow>
          if \<not> truthy (phash a) \<or> \<not> truthy (phash b) then Inr (False, ''phash_missing'')
          else let distance_value = phash_distance (the (phash a)) (the (phash b))
               in if distance_value \<le> strong_threshold then Inr (True, ''distance_strong_band'')
                  else if strong_threshold < distance_value \<and> distance_value \<le> weak_threshold
                       then Inr (weak_band_checks a b)
                       else Inr (False, ''distance_over_threshold''))"

definition are_near_duplicates :: "fileinfo \<Rightarrow> fileinfo \<Rightarrow> string option \<Rightarrow> error + bool" where
  "are_near_duplicates a b sensitivity = map_sum id fst (near_dup a b sensitivity)"

section \<open>Master selection (duplicates.py)\<close>

record duplicate_cluster =
  cluster_id :: string
  files :: "fileinfo list"
  master :: "fileinfo option"
  redundant :: "fileinfo list"

definition exif_count :: "fileinfo \<Rightarrow> int" where
  "exif_count f =
     (if exif_datetime f \<noteq> None then 1 else 0) + (if exif_gps f \<noteq> None then 1 else 0)
     + (if exif_camera f \<noteq> None then 1 else 0) + (if exif_orientation f \<noteq> None then 1 else 0)"

definition has_gps :: "fileinfo \<Rightarrow> bool" where
  "has_gps f = (exif_gps f \<noteq> None)"

text \<open>\<open>file.resolution or (0, 0)\<close>\<close>

definition res_or_zero :: "fileinfo \<Rightarrow> int \<times> int" where
  "res_or_zero f = (case resolution f of None \<Rightarrow> (0, 0) | Some r \<Rightarrow> r)"

definition pixels :: "fileinfo \<Rightarrow> int" where
  "pixels f = fst (res_or_zero f) * snd (res_or_zero f)"

definition fmt :: "fileinfo \<Rightarrow> string" where
  "fmt f = lower (format f)"

definition metadata_advantage :: "int \<Rightarrow> int \<Rightarrow> bool \<Rightarrow> bool \<Rightarrow> bool" where
  "metadata_advantage left_exif_count right_exif_count left_has_gps right_has_gps =
     (if left_exif_count > right_exif_count then True
      else if left_exif_count = right_exif_count \<and> left_has_gps \<and> \<not> right_has_gps then True
      else False)"

text \<open>The tail of \<open>is_better\<close>, from the size rule on.\<close>

definition is_better_tail :: "fileinfo \<Rightarrow> fileinfo \<Rightarrow> bool \<times> string option" where
  "is_better_tail candidate current =
     (if file_size candidate \<noteq> file_size current
      then (file_size candidate > file_size current, Some ''LARGER_FILESIZE_WINS'')
      else if exif_count candidate \<noteq> exif_count current
      then (exif_count candidate > exif_count current, Some ''MORE_EXIF_WINS'')
      else if has_gps candidate \<noteq> has_gps current
      then (has_gps candidate, Some ''GPS_PRESENT_BEATS_GPS_ABSENT'')
      else (case (exif_datetime candidate, exif_datetime current) of
              (None, None) \<Rightarrow> (False, None)
            | (None, Some _) \<Rightarrow> (False, Some ''OLDEST_CAPTURE_WINS'')
            | (Some _, None) \<Rightarrow> (True, Some ''OLDEST_CAPTURE_WINS'')
            | (Some candidate_ts, Some current_ts) \<Rightarrow>
                if candidate_ts \<noteq> current_ts
                then (candidate_ts < current_ts, Some ''OLDEST_CAPTURE_WINS'')
                else (False, None)))"

definition is_better :: "fileinfo \<Rightarrow> fileinfo \<Rightarrow> bool \<times> string option" where
  "is_better candidate current =
     (if is_raw candidate \<noteq> is_raw current then (is_raw candidate, Some ''RAW_BEATS_JPEG'')
      else if pixels candidate \<noteq> pixels current
      then (pixels candidate > pixels current, Some ''HIGHER_RESOLUTION_WINS'')
      else if res_or_zero candidate = res_or_zero current
              \<and> fmt candidate = ''heic'' \<and> (fmt current = ''jpg'' \<or> fmt current = ''jpeg'')
              \<and> metadata_advantage (exif_count candidate) (exif_count current)
                    (has_gps candidate) (has_gps current)
      then (True, Some ''MORE_EXIF_WINS'')
      else if res_or_zero candidate = res_or_zero current
              \<and> (fmt candidate = ''jpg'' \<or> fmt candidate = ''jpeg'') \<and> fmt current = ''heic''
              \<and> metadata_advantage (exif_count current) (exif_count candidate)
                    (has_gps current) (has_gps candidate)
      then (False, Some ''MORE_EXIF_WINS'')
      else is_better_tail candidate current)"

text \<open>
  The loop of \<open>select_master\<close>. The master is an object of the list; it is carried with
  its position, which stands for the identity of the object. State: the position of the
  next file, the master so far, the reason so far.
\<close>

fun select_loop ::
  "fileinfo list \<Rightarrow> nat \<Rightarrow> (nat \<times> fileinfo) option \<Rightarrow> string option
     \<Rightarrow> (nat \<times> fileinfo) option \<times> string option" where
  "select_loop [] i cur master_reason = (cur, master_reason)"
| "select_loop (file # rest) i None master_reason =
     select_loop rest (Suc i) (Some (i, file)) master_reason"
| "select_loop (file # rest) i (Some (k, m)) master_reason =
     (case is_better file m of
        (True, reason) \<Rightarrow>
          select_loop rest (Suc i) (Some (i, file))
            (if truthy reason then reason else master_reason)
      | (False, reason) \<Rightarrow>
          select_loop rest (Suc i) (Some (k, m))
            (if truthy reason then reason else master_reason))"

text \<open>
  \<open>select_master\<close> with the position of the master; the master is returned with
  \<open>selection_reason\<close> set, as the source assigns it on the object.
\<close>

definition select_master_at :: "duplicate_cluster \<Rightarrow> error + (nat \<times> fileinfo)" where
  "select_master_at cluster =
     (case select_loop (files cluster) 0 None None of
        (None, _) \<Rightarrow> Inl (DuplicateDetectionError ''Unable to select master for cluster'')
      | (Some (k, m), master_reason) \<Rightarrow> Inr (k, m\<lparr>selection_reason := master_reason\<rparr>))"


section \<open>Clustering (duplicates.py)\<close>

text \<open>
  The class \<open>UnionFind\<close>: two dictionaries keyed by records, that is by paths. \<open>find\<close> is
  recursive; the interpreter stops a recursion deeper than its limit with
  \<open>RecursionError\<close>, which makes the depth the fuel of the model.
\<close>

datatype union_find =
  UnionFind (parent: "(path \<times> path) list") (rank: "(path \<times> int) list")

definition RECURSION_LIMIT :: nat where
  "RECURSION_LIMIT = 1000"

text \<open>\<open>d[key]\<close> and \<open>d[key] = value\<close> on a dictionary that keeps insertion order.\<close>

fun dict_get :: "('k \<times> 'v) list \<Rightarrow> 'k \<Rightarrow> 'v option" where
  "dict_get [] key = None"
| "dict_get ((k, w) # d) key = (if k = key then Some w else dict_get d key)"

fun dict_set :: "('k \<times> 'v) list \<Rightarrow> 'k \<Rightarrow> 'v \<Rightarrow> ('k \<times> 'v) list" where
  "dict_set [] key v = [(key, v)]"
| "dict_set ((k, w) # d) key v = (if k = key then (k, v) # d else (k, w) # dict_set d key v)"

definition uf_init :: "fileinfo list \<Rightarrow> union_find" where
  "uf_init elements =
     UnionFind (foldl (\<lambda>d el. dict_set d (path el) (path el)) [] elements)
       (foldl (\<lambda>d el. dict_set d (path el) 0) [] elements)"

fun uf_find :: "nat \<Rightarrow> union_find \<Rightarrow> path \<Rightarrow> error + (union_find \<times> path)" where
  "uf_find depth uf element =
     (if depth = 0 then Inl RecursionError
      else case dict_get (parent uf) element of
             None \<Rightarrow> Inl (KeyError (concat element))
           | Some p \<Rightarrow>
               if p = element then Inr (uf, element)
               else (case uf_find (depth - 1) uf p of
                       Inl e \<Rightarrow> Inl e
                     | Inr (uf', found) \<Rightarrow>
                         Inr (UnionFind (dict_set (parent uf') element found) (rank uf'), found)))"

definition uf_union :: "union_find \<Rightarrow> path \<Rightarrow> path \<Rightarrow> error + union_find" where
  "uf_union uf element1 element2 =
     (case uf_find RECURSION_LIMIT uf element1 of
        Inl e \<Rightarrow> Inl e
      | Inr (uf1, root1) \<Rightarrow>
          (case uf_find RECURSION_LIMIT uf1 element2 of
             Inl e \<Rightarrow> Inl e
           | Inr (uf2, root2) \<Rightarrow>
               if root1 \<noteq> root2
               then (case (dict_get (rank uf2) root1, dict_get (rank uf2) root2) of
                       (Some r1, Some r2) \<Rightarrow>
                         if r1 < r2 then Inr (UnionFind (dict_set (parent uf2) root1 root2) (rank uf2))
                         else if r1 > r2
                         then Inr (UnionFind (dict_set (parent uf2) root2 root1) (rank uf2))
                         else Inr (UnionFind (dict_set (parent uf2) root2 root1)
                                     (dict_set (rank uf2) root1 (r1 + 1)))
                     | _ \<Rightarrow> Inl (KeyError (concat root1)))
               else Inr uf2))"

text \<open>
  \<open>d.setdefault(key, []).append(file)\<close> on a dictionary that keeps insertion order.
\<close>

fun setdefault_append :: "('k \<times> 'v list) list \<Rightarrow> 'k \<Rightarrow> 'v \<Rightarrow> ('k \<times> 'v list) list" where
  "setdefault_append [] key v = [(key, [v])]"
| "setdefault_append ((k, vs) # d) key v =
     (if k = key then (k, vs @ [v]) # d else (k, vs) # setdefault_append d key v)"

text \<open>Phase 1: the groups of equal \<open>sha256\<close>, and the union of each with its first member.\<close>

fun exact_groups :: "(string \<times> fileinfo list) list \<Rightarrow> fileinfo list \<Rightarrow> (string \<times> fileinfo list) list" where
  "exact_groups d [] = d"
| "exact_groups d (file # rest) =
     exact_groups (if truthy (sha256 file) then setdefault_append d (the (sha256 file)) file else d)
       rest"

fun union_all :: "union_find \<Rightarrow> fileinfo \<Rightarrow> fileinfo list \<Rightarrow> error + union_find" where
  "union_all uf first_file [] = Inr uf"
| "union_all uf first_file (g # rest) =
     (case uf_union uf (path first_file) (path g) of
        Inl e \<Rightarrow> Inl e
      | Inr uf' \<Rightarrow> union_all uf' first_file rest)"

fun union_groups :: "union_find \<Rightarrow> fileinfo list list \<Rightarrow> error + union_find" where
  "union_groups uf [] = Inr uf"
| "union_groups uf (grp # rest) =
     (case (case grp of
              first_file # others \<Rightarrow> union_all uf first_file others
            | [] \<Rightarrow> Inr uf) of
        Inl e \<Rightarrow> Inl e
      | Inr uf' \<Rightarrow> union_groups uf' rest)"

text \<open>
  Phase 2: the candidates sorted by \<open>phash\<close> (a stable sort on the string), each compared
  with the next \<open>PHASH_SEARCH_WINDOW\<close> candidates.
\<close>

definition PHASH_SEARCH_WINDOW :: nat where
  "PHASH_SEARCH_WINDOW = 20"

definition phash_key :: "fileinfo \<Rightarrow> string" where
  "phash_key x = (if truthy (phash x) then the (phash x) else [])"

definition phash_candidates :: "fileinfo list \<Rightarrow> fileinfo list" where
  "phash_candidates fs = sort_key phash_key (filter (\<lambda>f. truthy (phash f)) fs)"

fun compare_window :: "string \<Rightarrow> union_find \<Rightarrow> fileinfo \<Rightarrow> fileinfo list \<Rightarrow> error + union_find" where
  "compare_window sensitivity uf base [] = Inr uf"
| "compare_window sensitivity uf base (candidate # rest) =
     (case are_near_duplicates base candidate (Some sensitivity) of
        Inl e \<Rightarrow> Inl e
      | Inr True \<Rightarrow>
          (case uf_union uf (path base) (path candidate) of
             Inl e \<Rightarrow> Inl e
           | Inr uf' \<Rightarrow> compare_window sensitivity uf' base rest)
      | Inr False \<Rightarrow> compare_window sensitivity uf base rest)"

fun near_phase :: "string \<Rightarrow> union_find \<Rightarrow> fileinfo list \<Rightarrow> error + union_find" where
  "near_phase sensitivity uf [] = Inr uf"
| "near_phase sensitivity uf (base # rest) =
     (case compare_window sensitivity uf base (take PHASH_SEARCH_WINDOW rest) of
        Inl e \<Rightarrow> Inl e
      | Inr uf' \<Rightarrow> near_phase sensitivity uf' rest)"

text \<open>The clusters by root, in the order in which the roots are first met.\<close>

fun raw_clusters ::
  "union_find \<Rightarrow> (path \<times> fileinfo list) list \<Rightarrow> fileinfo list \<Rightarrow> error + (path \<times> fileinfo list) list"
  where
  "raw_clusters uf d [] = Inr d"
| "raw_clusters uf d (file # rest) =
     (case uf_find RECURSION_LIMIT uf (path file) of
        Inl e \<Rightarrow> Inl e
      | Inr (uf', root_file) \<Rightarrow> raw_clusters uf' (setdefault_append d root_file file) rest)"

text \<open>
  One final cluster: the master is chosen, and its \<open>selection_reason\<close> is set on the
  object, which is a member of the cluster; \<open>redundant\<close> holds the other objects.
\<close>

definition final_cluster :: "nat \<Rightarrow> fileinfo list \<Rightarrow> error + duplicate_cluster" where
  "final_cluster cluster_index cluster_files =
     (let cid = ''cluster_'' @ format_0d 4 (int cluster_index)
      in case select_master_at
                \<lparr>cluster_id = cid, files = cluster_files, master = None, redundant = []\<rparr> of
           Inl e \<Rightarrow> Inl e
         | Inr (k, m) \<Rightarrow>
             Inr \<lparr>cluster_id = cid, files = cluster_files[k := m], master = Some m,
                  redundant = take k cluster_files @ drop (Suc k) cluster_files\<rparr>)"

fun final_clusters :: "nat \<Rightarrow> fileinfo list list \<Rightarrow> error + duplicate_cluster list" where
  "final_clusters cluster_index [] = Inr []"
| "final_clusters cluster_index (cluster_files # rest) =
     (case final_cluster cluster_index cluster_files of
        Inl e \<Rightarrow> Inl e
      | Inr c \<Rightarrow>
          (case final_clusters (Suc cluster_index) rest of
             Inl e \<Rightarrow> Inl e
           | Inr cs \<Rightarrow> Inr (c # cs)))"

definition group_duplicates_body :: "fileinfo list \<Rightarrow> string option \<Rightarrow> error + duplicate_cluster list"
  where
  "group_duplicates_body fs sensitivity =
     (if fs = [] then Inr []
      else case union_groups (uf_init fs)
                  (filter (\<lambda>grp. length grp > 1) (map snd (exact_groups [] fs))) of
             Inl e \<Rightarrow> Inl e
           | Inr uf1 \<Rightarrow>
               (case near_phase (normalize_sensitivity sensitivity) uf1 (phash_candidates fs) of
                  Inl e \<Rightarrow> Inl e
                | Inr uf2 \<Rightarrow>
                    (case raw_clusters uf2 [] fs of
                       Inl e \<Rightarrow> Inl e
                     | Inr d \<Rightarrow> final_clusters 1 (map snd d))))"

text \<open>\<open>group_duplicates\<close>: every exception of the body becomes \<open>DuplicateDetectionError\<close>.\<close>

definition group_duplicates :: "fileinfo list \<Rightarrow> string option \<Rightarrow> error + duplicate_cluster list" where
  "group_duplicates fs sensitivity =
     (case group_duplicates_body fs sensitivity of
        Inl e \<Rightarrow> Inl (DuplicateDetectionError ''Failed to group duplicates'')
      | Inr clusters \<Rightarrow> Inr clusters)"

text \<open>The partition a clustering induces: the sets of the members' paths.\<close>

definition membership :: "duplicate_cluster list \<Rightarrow> path set set" where
  "membership clusters = set (map (\<lambda>c. set (map path (files c))) clusters)"

section \<open>Target paths (organizer.py, review.py)\<close>




text \<open>
  Paths as segment lists: \<open>os.path.basename\<close>, \<open>os.path.dirname\<close>,
  \<open>os.path.abspath(os.path.join(base, *names))\<close> for names without a separator (an empty
  name adds nothing), \<open>os.path.relpath\<close> (the empty list is \<open>"."\<close>) and the removal of
  \<open>".."\<close> segments by \<open>abspath\<close>.
\<close>

definition basename :: "path \<Rightarrow> string" where
  "basename p = (if p = [] then [] else last p)"

definition dirname :: "path \<Rightarrow> path" where
  "dirname p = butlast p"

definition join :: "path \<Rightarrow> string list \<Rightarrow> path" where
  "join base names = base @ filter (\<lambda>n. n \<noteq> []) names"

fun common_prefix :: "path \<Rightarrow> path \<Rightarrow> nat" where
  "common_prefix (a # as) (b # bs) = (if a = b then Suc (common_prefix as bs) else 0)"
| "common_prefix _ _ = 0"

definition relpath :: "path \<Rightarrow> path \<Rightarrow> string list" where
  "relpath target start =
     (let i = common_prefix start target
      in replicate (length start - i) ''..'' @ drop i target)"


text \<open>\<open>re.fullmatch(r"(19|20)\d{2}", part)\<close>\<close>

definition year_match :: "string \<Rightarrow> bool" where
  "year_match part =
     (length part = 4 \<and> (take 2 part = ''19'' \<or> take 2 part = ''20'')
      \<and> list_all is_decimal (drop 2 part))"

text \<open>\<open>re.fullmatch(r"([01]\d)", s)\<close>\<close>

definition month_match :: "string \<Rightarrow> bool" where
  "month_match s = (length s = 2 \<and> (hd s = CHR ''0'' \<or> hd s = CHR ''1'') \<and> is_decimal (s ! 1))"











section \<open>The file system\<close>

text \<open>
  What the program sees of the file system. \<open>nodes\<close> is the view of \<open>os.stat\<close>, which
  follows symbolic links: a regular file, given by the SHA-256 digest of its content
  (equal digests stand for equal bytes), or a directory. \<open>links\<close> is
  \<open>os.path.islink\<close>, \<open>realpath\<close> is \<open>os.path.realpath\<close>, \<open>listing\<close> is \<open>os.listdir\<close> and
  \<open>device\<close> is \<open>st_dev\<close>. Failures of the operating system other than a missing or
  wrongly typed path (permissions, full disks) are not modelled.
\<close>

datatype node = File string | Dir

record filesystem =
  nodes :: "path \<rightharpoonup> node"
  links :: "path \<Rightarrow> bool"
  realpath :: "path \<Rightarrow> path"
  listing :: "path \<Rightarrow> string list"
  device :: "path \<Rightarrow> nat"

definition exists_path :: "filesystem \<Rightarrow> path \<Rightarrow> bool" where
  "exists_path fs p = (nodes fs p \<noteq> None)"

definition isfile :: "filesystem \<Rightarrow> path \<Rightarrow> bool" where
  "isfile fs p = (case nodes fs p of Some (File _) \<Rightarrow> True | _ \<Rightarrow> False)"

definition isdir :: "filesystem \<Rightarrow> path \<Rightarrow> bool" where
  "isdir fs p = (nodes fs p = Some Dir)"

definition islink :: "filesystem \<Rightarrow> path \<Rightarrow> bool" where
  "islink fs p = links fs p"

definition compute_sha256 :: "filesystem \<Rightarrow> path \<Rightarrow> error + string" where
  "compute_sha256 fs p = (case nodes fs p of Some (File h) \<Rightarrow> Inr h | _ \<Rightarrow> Inl (HashingError p))"

text \<open>The path and all its ancestors, the root first.\<close>

definition ancestors_and_self :: "path \<Rightarrow> path list" where
  "ancestors_and_self p = map (\<lambda>n. take n p) [0..<Suc (length p)]"

text \<open>
  \<open>ensure_directory\<close>, that is \<open>os.makedirs(path, exist_ok=True)\<close>: fails when the path
  or an ancestor is a regular file, and otherwise leaves all of them directories.
\<close>

definition ensure_directory :: "filesystem \<Rightarrow> path \<Rightarrow> error + filesystem" where
  "ensure_directory fs p =
     (if list_ex (isfile fs) (ancestors_and_self p) then Inl (CannotCreateDirectory p)
      else Inr (fs\<lparr>nodes := (\<lambda>q. if q \<in> set (ancestors_and_self p) then Some Dir else nodes fs q)\<rparr>))"

definition is_prefix :: "path \<Rightarrow> path \<Rightarrow> bool" where
  "is_prefix p q = (take (length p) q = p)"

text \<open>
  \<open>shutil.move(src, dst)\<close> for a destination that is not an existing directory. A
  regular file is found at the destination afterwards and no longer at the source; a
  directory is found there with all that lies below it. It fails when the source does
  not exist, and when a directory is moved into itself.
\<close>

definition move :: "filesystem \<Rightarrow> path \<Rightarrow> path \<Rightarrow> error + filesystem" where
  "move fs source target =
     (case nodes fs source of
        None \<Rightarrow> Inl (FailedToMove source target)
      | Some (File h) \<Rightarrow> Inr (fs\<lparr>nodes := ((nodes fs)(source := None))(target \<mapsto> File h)\<rparr>)
      | Some Dir \<Rightarrow>
          if is_prefix source target \<and> source \<noteq> target then Inl (FailedToMove source target)
          else Inr (fs\<lparr>nodes := (\<lambda>q. if is_prefix target q
                                       then nodes fs (source @ drop (length target) q)
                                       else if is_prefix source q then None else nodes fs q)\<rparr>))"

text \<open>\<open>os.path.splitext\<close> of a file name: the extension starts at the last dot that has a
  character other than a dot before it.\<close>

definition splitext :: "string \<Rightarrow> string \<times> string" where
  "splitext name =
     (let ext = rev (takeWhile (\<lambda>c. c \<noteq> CHR ''.'') (rev name));
          stem = take (length name - length ext - 1) name
      in if CHR ''.'' \<in> set name \<and> list_ex (\<lambda>c. c \<noteq> CHR ''.'') stem
         then (stem, CHR ''.'' # ext) else (name, []))"

section \<open>Path safety (utils.py)\<close>

text \<open>
  \<open>path_violation_message(target, root)\<close>. The relative path is a segment list, so
  \<open>relative.startswith("..")\<close> looks at its first segment.
\<close>

fun symlink_walk :: "filesystem \<Rightarrow> path \<Rightarrow> path \<Rightarrow> string list \<Rightarrow> violation option" where
  "symlink_walk fs target current [] = None"
| "symlink_walk fs target current (part # parts) =
     (if part = ''..'' then Some (Escapes target)
      else if islink fs (current @ [part]) then Some (SymlinkUnder (current @ [part]))
      else symlink_walk fs target (current @ [part]) parts)"

definition path_violation_message :: "filesystem \<Rightarrow> path \<Rightarrow> path \<Rightarrow> violation option" where
  "path_violation_message fs target root_dir =
     (let relative = relpath target root_dir
      in if relative \<noteq> [] \<and> startswith (hd relative) ''..'' then Some (Escapes target)
         else if \<not> is_prefix (realpath fs root_dir) (realpath fs target) then Some (ResolvesOutside target)
         else symlink_walk fs target root_dir
                (filter (\<lambda>part. part \<noteq> [] \<and> part \<noteq> ''.'') relative))"

section \<open>Destination validation (merge_engine.py)\<close>

definition is_year :: "string \<Rightarrow> bool" where
  "is_year name =
     (length name = 4 \<and> isdigit name \<and> (startswith name ''19'' \<or> startswith name ''20''))"

text \<open>\<open>int(m)\<close> for a string of \<open>isdigit\<close> characters: it reads decimal digits only.\<close>

definition int_of_digits :: "string \<Rightarrow> error + int" where
  "int_of_digits m = (if list_all is_decimal m then Inr (decimal_value m) else Inl (ValueError m))"

text \<open>\<open>name.split("-", 1)\<close> for a name that contains \<open>"-"\<close>.\<close>

definition split_dash :: "string \<Rightarrow> string \<times> string" where
  "split_dash name =
     (takeWhile (\<lambda>c. c \<noteq> CHR ''-'') name, drop 1 (dropWhile (\<lambda>c. c \<noteq> CHR ''-'') name))"

definition is_year_month :: "string \<Rightarrow> string \<Rightarrow> error + bool" where
  "is_year_month name year =
     (if length name \<noteq> 7 \<or> name ! 4 \<noteq> CHR ''-'' then Inr False
      else case split_dash name of
             (y, m) \<Rightarrow>
               if y \<noteq> year then Inr False
               else if isdigit m
               then (case int_of_digits m of
                       Inl e \<Rightarrow> Inl e
                     | Inr v \<Rightarrow> Inr (1 \<le> v \<and> v \<le> 12))
               else Inr False)"








section \<open>Safe move (utils.py)\<close>

text \<open>
  An operation that changes the file system returns the file system as it leaves it,
  together with its result or the exception it raises.
\<close>

type_synonym 'a outcome = "filesystem \<times> (error + 'a)"

definition ensure_safe :: "filesystem \<Rightarrow> path \<Rightarrow> path \<Rightarrow> error + unit" where
  "ensure_safe fs target normalized_root =
     (case path_violation_message fs target normalized_root of
        Some v \<Rightarrow> Inl (UnsafePath v)
      | None \<Rightarrow> Inr ())"

text \<open>The name \<open><base>-<src_hash><ext>\<close> beside the destination.\<close>

definition suffixed_name :: "string \<Rightarrow> string \<Rightarrow> string" where
  "suffixed_name normalized_dst_base src_hash =
     (case splitext normalized_dst_base of (base, ext) \<Rightarrow> base @ ''-'' @ src_hash @ ext)"

text \<open>
  The destination \<open>safe_move\<close> settles on, once the destination folder exists: the
  planned one when it is free or holds the same content, the suffixed one when the
  planned one holds other content and the suffixed one is free.
\<close>

definition choose_target :: "filesystem \<Rightarrow> path \<Rightarrow> path \<Rightarrow> path \<Rightarrow> error + path" where
  "choose_target fs source dest normalized_root =
     (let normalized_dst_dir = dirname dest;
          normalized_dst_base = basename dest;
          target_dst = join normalized_dst_dir [normalized_dst_base]
      in case ensure_safe fs target_dst normalized_root of
           Inl e \<Rightarrow> Inl e
         | Inr _ \<Rightarrow>
             if exists_path fs target_dst
             then (case compute_sha256 fs source of
                     Inl e \<Rightarrow> Inl e
                   | Inr src_hash \<Rightarrow>
                       (case compute_sha256 fs target_dst of
                          Inl e \<Rightarrow> Inl e
                        | Inr dst_hash \<Rightarrow>
                            if src_hash \<noteq> dst_hash
                            then (let suffixed_dst =
                                        join normalized_dst_dir
                                          [suffixed_name normalized_dst_base src_hash]
                                  in if exists_path fs suffixed_dst
                                     then Inl (UnresolvableCollision source dest)
                                     else (case ensure_safe fs suffixed_dst normalized_root of
                                             Inl e \<Rightarrow> Inl e
                                           | Inr _ \<Rightarrow> Inr suffixed_dst))
                            else Inr target_dst))
             else (case ensure_safe fs target_dst normalized_root of
                     Inl e \<Rightarrow> Inl e
                   | Inr _ \<Rightarrow> Inr target_dst))"

definition safe_move :: "filesystem \<Rightarrow> path \<Rightarrow> path \<Rightarrow> path option \<Rightarrow> path outcome" where
  "safe_move fs source dest allowed_root =
     (case allowed_root of
        None \<Rightarrow> (fs, Inl (ValueError ''allowed_root is required for safe_move''))
      | Some normalized_root \<Rightarrow>
          (case ensure_safe fs (dirname dest) normalized_root of
             Inl e \<Rightarrow> (fs, Inl e)
           | Inr _ \<Rightarrow>
               (case ensure_directory fs (dirname dest) of
                  Inl e \<Rightarrow> (fs, Inl e)
                | Inr fs1 \<Rightarrow>
                    (case choose_target fs1 source dest normalized_root of
                       Inl e \<Rightarrow> (fs1, Inl e)
                     | Inr target_dst \<Rightarrow>
                         (case move fs1 source target_dst of
                            Inl e \<Rightarrow> (fs1, Inl (FailedToMove source target_dst))
                          | Inr fs2 \<Rightarrow>
                              if \<not> exists_path fs2 target_dst
                              then (fs2, Inl (FailedToMove source target_dst))
                              else (fs2, Inr target_dst))))))"

section \<open>Merge execution (merge_engine.py, organizer.py)\<close>

record merge_plan =
  required_space_of :: int
  destination_free :: int
  duplicate_count :: int
  total_files :: int
  actions :: "merge_action list"
  destination_path :: "path option"
  skipped_files :: int

text \<open>\<open>os.path.commonpath\<close> of a non-empty list of absolute paths.\<close>

definition commonpath :: "path list \<Rightarrow> path" where
  "commonpath ps = foldl (\<lambda>acc p. take (common_prefix acc p) acc) (hd ps) (tl ps)"

fun is_create_folder :: "merge_action \<Rightarrow> bool" where
  "is_create_folder (CreateFolderAction _) = True"
| "is_create_folder _ = False"

definition infer_destination_root :: "merge_plan \<Rightarrow> path option" where
  "infer_destination_root plan =
     (let move_targets = map dst (filter is_move_action (actions plan));
          folder_targets = map folder_path (filter is_create_folder (actions plan))
      in if move_targets \<noteq> [] then Some (commonpath move_targets)
         else if folder_targets \<noteq> [] then Some (commonpath folder_targets)
         else None)"

text \<open>\<open>re.fullmatch(rf"{year_segment}-([01]\d)", month_segment)\<close>\<close>

definition year_dash_month_match :: "string \<Rightarrow> string \<Rightarrow> bool" where
  "year_dash_month_match year_segment month_segment =
     (month_segment = year_segment @ ''-'' @ drop (length year_segment + 1) month_segment
      \<and> month_match (drop (length year_segment + 1) month_segment))"

text \<open>
  \<open>ensure_structure\<close> for one folder in mode \<open>"on"\<close>, and the function over all folders.
\<close>

definition ensure_directories :: "filesystem \<Rightarrow> path list \<Rightarrow> unit outcome" where
  "ensure_directories fs ds =
     foldl (\<lambda>(cur, r) d. case r of
                            Inl e \<Rightarrow> (cur, Inl e)
                          | Inr _ \<Rightarrow> (case ensure_directory cur d of
                                       Inl e \<Rightarrow> (cur, Inl e)
                                     | Inr cur' \<Rightarrow> (cur', Inr ())))
       (fs, Inr ()) ds"

definition ensure_folder :: "filesystem \<Rightarrow> path \<Rightarrow> path \<Rightarrow> unit outcome" where
  "ensure_folder fs normalized_base normalized_folder =
     (case path_violation_message fs normalized_folder normalized_base of
        Some v \<Rightarrow> (fs, Inl (UnsafePath v))
      | None \<Rightarrow>
          if \<not> is_prefix normalized_base normalized_folder
          then (fs, Inl (FolderOutside normalized_folder))
          else (let parts = filter (\<lambda>part. part \<noteq> [] \<and> part \<noteq> ''.'')
                              (relpath normalized_folder normalized_base)
                in case parts of
                     [] \<Rightarrow> (fs, Inr ())
                   | year_segment # others \<Rightarrow>
                       if year_segment = ''REVIEW'' \<or> year_segment = ''QUARANTINE_EXACT''
                       then ensure_directories fs
                              [normalized_base @ [year_segment], normalized_folder]
                       else if \<not> year_match year_segment
                       then (fs, Inl (InvalidYearFolder year_segment))
                       else (case ensure_directory fs (normalized_base @ [year_segment]) of
                               Inl e \<Rightarrow> (fs, Inl e)
                             | Inr fs1 \<Rightarrow>
                                 (case others of
                                    [] \<Rightarrow> ensure_directories fs1 [normalized_folder]
                                  | month_segment # _ \<Rightarrow>
                                      if \<not> year_dash_month_match year_segment month_segment
                                      then (fs1, Inl (InvalidYearMonthFolder month_segment
                                                        year_segment))
                                      else ensure_directories fs1
                                             [normalized_base @ [year_segment, month_segment],
                                              normalized_folder]))))"

fun ensure_folders :: "filesystem \<Rightarrow> path \<Rightarrow> path list \<Rightarrow> unit outcome" where
  "ensure_folders fs normalized_base [] = (fs, Inr ())"
| "ensure_folders fs normalized_base (folder # rest) =
     (case ensure_folder fs normalized_base folder of
        (fs1, Inl e) \<Rightarrow> (fs1, Inl e)
      | (fs1, Inr _) \<Rightarrow> ensure_folders fs1 normalized_base rest)"

definition ensure_structure :: "filesystem \<Rightarrow> path \<Rightarrow> string \<Rightarrow> path list \<Rightarrow> unit outcome" where
  "ensure_structure fs base_out merge_mode folders =
     (if islink fs base_out then (fs, Inl (BaseIsSymlink base_out))
      else case ensure_directory fs base_out of
             Inl e \<Rightarrow> (fs, Inl e)
           | Inr fs1 \<Rightarrow>
               if lower merge_mode \<noteq> ''on'' then ensure_directories fs1 folders
               else ensure_folders fs1 base_out folders)"

text \<open>
  One action of the loop of \<open>execute_merge\<close>: the action as the loop leaves it (a move
  has its final destination written back) and the pair added to \<open>renamed_paths\<close>, if
  any. The hash is verified after the move only when the action records one.
\<close>

definition verify_hash :: "filesystem \<Rightarrow> string option \<Rightarrow> path \<Rightarrow> error + unit" where
  "verify_hash fs original_hash new_dst =
     (if truthy original_hash
      then (case compute_sha256 fs new_dst of
              Inl e \<Rightarrow> Inl e
            | Inr new_hash \<Rightarrow>
                if new_hash \<noteq> the original_hash then Inl (HashMismatch new_dst) else Inr ())
      else Inr ())"

fun with_dst :: "merge_action \<Rightarrow> path \<Rightarrow> merge_action" where
  "with_dst (MoveMasterAction s d h n r) new_dst = MoveMasterAction s new_dst h n r"
| "with_dst (MoveToQuarantineExactAction s d h n) new_dst = MoveToQuarantineExactAction s new_dst h n"
| "with_dst a new_dst = a"

definition execute_move ::
  "filesystem \<Rightarrow> path option \<Rightarrow> merge_action \<Rightarrow> (merge_action \<times> (path \<times> path) list) outcome" where
  "execute_move fs allowed_root action =
     (case safe_move fs (src action) (dst action) allowed_root of
        (fs1, Inl e) \<Rightarrow> (fs1, Inl e)
      | (fs1, Inr new_dst) \<Rightarrow>
          (case verify_hash fs1 (sha256_of action) new_dst of
             Inl e \<Rightarrow> (fs1, Inl e)
           | Inr _ \<Rightarrow>
               (fs1, Inr (with_dst action new_dst,
                          if new_dst \<noteq> dst action then [(dst action, new_dst)] else []))))"

definition execute_action ::
  "filesystem \<Rightarrow> path option \<Rightarrow> merge_plan \<Rightarrow> merge_action
     \<Rightarrow> (merge_action \<times> (path \<times> path) list) outcome" where
  "execute_action fs destination_root plan action =
     (case action of
        CreateFolderAction p \<Rightarrow>
          (case ensure_directory fs p of
             Inl e \<Rightarrow> (fs, Inl e)
           | Inr fs1 \<Rightarrow> (fs1, Inr (action, [])))
      | MarkNearDuplicateAction _ _ _ _ \<Rightarrow> (fs, Inr (action, []))
      | _ \<Rightarrow>
          execute_move fs
            (case destination_root of
               Some r \<Rightarrow> Some r
             | None \<Rightarrow> (case infer_destination_root plan of
                          Some r \<Rightarrow> Some r
                        | None \<Rightarrow> Some (dirname (dst action))))
            action)"

text \<open>
  The loop over \<open>plan.actions\<close>. The actions already done stand in the plan with their
  final destinations, which \<open>_infer_destination_root\<close> reads.
\<close>

fun execute_actions ::
  "filesystem \<Rightarrow> path option \<Rightarrow> merge_plan \<Rightarrow> merge_action list \<Rightarrow> merge_action list
     \<Rightarrow> (merge_action list \<times> (path \<times> path) list) outcome" where
  "execute_actions fs destination_root plan done_actions [] = (fs, Inr (done_actions, []))"
| "execute_actions fs destination_root plan done_actions (action # rest) =
     (case execute_action fs destination_root
             (plan\<lparr>actions := done_actions @ action # rest\<rparr>) action of
        (fs1, Inl e) \<Rightarrow> (fs1, Inl e)
      | (fs1, Inr (done_action, renamed)) \<Rightarrow>
          (case execute_actions fs1 destination_root plan (done_actions @ [done_action]) rest of
             (fs2, Inl e) \<Rightarrow> (fs2, Inl e)
           | (fs2, Inr (all_done, renamed_rest)) \<Rightarrow>
               (fs2, Inr (all_done, renamed @ renamed_rest))))"

text \<open>
  \<open>execute_merge\<close>: the plan with the final destinations and the renamed pairs. Every
  exception is raised again as \<open>MergeExecutionError\<close>. The reports and the manifest are
  written outside the library and are not part of the model; the parents of the planned
  folders are created in the order of the plan.
\<close>

definition execute_merge :: "filesystem \<Rightarrow> merge_plan \<Rightarrow> (merge_plan \<times> (path \<times> path) list) outcome"
  where
  "execute_merge fs plan =
     (let folder_targets = map folder_path (filter is_create_folder (actions plan));
          destination_root = (case destination_path plan of
                                Some r \<Rightarrow> Some r
                              | None \<Rightarrow> infer_destination_root plan)
      in case (case destination_root of
                 Some r \<Rightarrow> ensure_structure fs r ''on'' folder_targets
               | None \<Rightarrow> (fs, Inr ())) of
           (fs1, Inl e) \<Rightarrow> (fs1, Inl (MergeExecutionError e))
         | (fs1, Inr _) \<Rightarrow>
             (case ensure_directories fs1 (map dirname folder_targets) of
                (fs2, Inl e) \<Rightarrow> (fs2, Inl (MergeExecutionError e))
              | (fs2, Inr _) \<Rightarrow>
                  (case execute_actions fs2 destination_root plan [] (actions plan) of
                     (fs3, Inl e) \<Rightarrow> (fs3, Inl (MergeExecutionError e))
                   | (fs3, Inr (all_done, renamed)) \<Rightarrow>
                       (fs3, Inr (plan\<lparr>actions := all_done\<rparr>, renamed)))))"

section \<open>Undo (merge_engine.py)\<close>

text \<open>
  An entry of the manifest and of the undo plan: a dictionary read with \<open>get\<close>, so every
  key may be absent. A path that is absent or empty is \<open>None\<close>.
\<close>

record entry =
  original_path :: "path option"
  new_path :: "path option"
  hash :: "string option"
  status :: "string option"
  reason :: "string option"
  target_path :: "path option"

record undo_plan =
  operation_id :: string
  library_root :: path
  conflict_root :: path
  entries :: "entry list"

text \<open>
  \<open>_infer_library_root\<close>: the common ancestor of the folders of the new paths, with the
  structural folders peeled off its end. The argument of \<open>peel\<close> is the path reversed.
\<close>

fun peel :: "string list \<Rightarrow> error + string list" where
  "peel [] = Inr []"
| "peel (base # parents) =
     (if base = ''QUARANTINE_EXACT'' \<or> base = ''REVIEW'' then peel parents
      else if is_year base then peel parents
      else (case is_year_month base (case parents of [] \<Rightarrow> [] | p # _ \<Rightarrow> p) of
              Inl e \<Rightarrow> Inl e
            | Inr True \<Rightarrow> peel parents
            | Inr False \<Rightarrow> Inr (base # parents)))"

definition infer_library_root :: "entry list \<Rightarrow> error + path option" where
  "infer_library_root es =
     (let paths = map (\<lambda>e. dirname (the (new_path e))) (filter (\<lambda>e. new_path e \<noteq> None) es)
      in if paths = [] then Inr None
         else map_sum id (\<lambda>r. Some (rev r)) (peel (rev (commonpath paths))))"

definition hash_matches :: "filesystem \<Rightarrow> path \<Rightarrow> string option \<Rightarrow> error + bool" where
  "hash_matches fs p expected =
     (if \<not> truthy expected then Inr False
      else map_sum id (\<lambda>h. h = the expected) (compute_sha256 fs p))"

definition planned :: "entry \<Rightarrow> string \<Rightarrow> string \<Rightarrow> path option \<Rightarrow> entry" where
  "planned e st why target =
     \<lparr>original_path = original_path e, new_path = new_path e, hash = hash e,
      status = Some st, reason = Some why, target_path = target\<rparr>"

text \<open>The classification of one manifest entry in \<open>prepare_undo_plan\<close>.\<close>

definition classify :: "filesystem \<Rightarrow> path \<Rightarrow> entry \<Rightarrow> error + entry" where
  "classify fs conflict_dir e =
     (case (original_path e, new_path e) of
        (Some original, Some new) \<Rightarrow>
          if exists_path fs new
          then (if exists_path fs original
                then Inr (planned e ''conflict'' ''Original path occupied; routed to REVIEW.''
                            (Some (join conflict_dir [basename new])))
                else Inr (planned e ''restore'' ''Ready to restore.'' (Some original)))
          else if exists_path fs original
          then (case hash_matches fs original (hash e) of
                  Inl err \<Rightarrow> Inl err
                | Inr True \<Rightarrow> Inr (planned e ''skipped_restored'' ''Already restored.'' None)
                | Inr False \<Rightarrow>
                    Inr (planned e ''conflict_missing_source''
                           ''Original path occupied; source missing.'' None))
          else Inr (planned e ''skipped_missing'' ''Source missing; nothing to restore.'' None)
      | _ \<Rightarrow> Inr (planned e ''skipped_invalid'' ''Manifest entry missing required paths.'' None))"

fun classify_all :: "filesystem \<Rightarrow> path \<Rightarrow> entry list \<Rightarrow> error + entry list" where
  "classify_all fs conflict_dir [] = Inr []"
| "classify_all fs conflict_dir (e # es) =
     (case classify fs conflict_dir e of
        Inl err \<Rightarrow> Inl err
      | Inr p \<Rightarrow> map_sum id (\<lambda>ps. p # ps) (classify_all fs conflict_dir es))"

text \<open>
  \<open>prepare_undo_plan\<close> on the manifest as \<open>load_source_manifest\<close> returns it: the batch
  id and the entries.
\<close>

definition prepare_undo_plan :: "filesystem \<Rightarrow> string \<Rightarrow> entry list \<Rightarrow> string \<Rightarrow> error + undo_plan"
  where
  "prepare_undo_plan fs batch_id manifest_entries op_id =
     (if op_id \<noteq> batch_id
      then Inl (UndoInputError ''Unknown operation id; no matching manifest found.'')
      else case infer_library_root manifest_entries of
             Inl err \<Rightarrow> Inl err
           | Inr None \<Rightarrow>
               Inl (UndoInputError ''Unable to infer library root from source manifest.'')
           | Inr (Some lib) \<Rightarrow>
               (let conflict_dir = join lib [''REVIEW'', ''UNDO_CONFLICTS'', op_id]
                in map_sum id
                     (\<lambda>ps. \<lparr>operation_id = op_id, library_root = lib,
                            conflict_root = conflict_dir, entries = ps\<rparr>)
                     (classify_all fs conflict_dir manifest_entries)))"

function existing_parent :: "filesystem \<Rightarrow> path \<Rightarrow> path option" where
  "existing_parent fs current =
     (if exists_path fs current then Some current
      else if current = [] then None
      else existing_parent fs (butlast current))"
  by pat_completeness auto
termination
  by (relation "measure (\<lambda>(fs, current). length current)") auto

definition assert_same_filesystem :: "filesystem \<Rightarrow> path \<Rightarrow> path \<Rightarrow> error + unit" where
  "assert_same_filesystem fs source target =
     (if \<not> exists_path fs source then Inl (UndoSafetyError ''Unable to stat source for undo'')
      else case existing_parent fs (dirname target) of
             None \<Rightarrow> Inl (UndoSafetyError ''Unable to locate existing parent for undo target'')
           | Some target_parent \<Rightarrow>
               if device fs source \<noteq> device fs target_parent
               then Inl (UndoSafetyError
                          ''Undo blocked: source and target are on different filesystems.'')
               else Inr ())"

text \<open>\<open>_unique_destination\<close>: the numbered names are tried for 1 to 999.\<close>

function numbered_destination ::
  "filesystem \<Rightarrow> path \<Rightarrow> string \<Rightarrow> string \<Rightarrow> string \<Rightarrow> nat \<Rightarrow> error + path" where
  "numbered_destination fs dir base suffix ext idx =
     (if idx \<ge> 1000
      then Inl (UndoSafetyError ''Unable to resolve undo conflict destination'')
      else if \<not> exists_path fs (dir @ [base @ ''-'' @ suffix @ ''-'' @ str_int (int idx) @ ext])
      then Inr (dir @ [base @ ''-'' @ suffix @ ''-'' @ str_int (int idx) @ ext])
      else numbered_destination fs dir base suffix ext (Suc idx))"
  by pat_completeness auto
termination
  by (relation "measure (\<lambda>(fs, dir, base, suffix, ext, idx). 1000 - idx)") auto

definition unique_destination :: "filesystem \<Rightarrow> path \<Rightarrow> string option \<Rightarrow> error + path" where
  "unique_destination fs p src_hash =
     (if \<not> exists_path fs p then Inr p
      else case splitext (basename p) of
             (base, ext) \<Rightarrow>
               (let suffix = take 12 (if truthy src_hash then the src_hash else ''conflict'');
                    candidate = dirname p @ [base @ ''-'' @ suffix @ ext]
                in if \<not> exists_path fs candidate then Inr candidate
                   else numbered_destination fs (dirname p) base suffix ext 1))"

text \<open>
  The move of one \<open>restore\<close> or \<open>conflict\<close> entry whose source exists, from the choice of
  the target on.
\<close>

definition undo_move :: "filesystem \<Rightarrow> path \<Rightarrow> entry \<Rightarrow> path \<Rightarrow> entry outcome" where
  "undo_move fs conflict_dir e source =
     (case (if status e = Some ''restore'' then original_path e
            else Some (join conflict_dir [basename source])) of
        None \<Rightarrow> (fs, Inr (e\<lparr>status := Some ''skipped_invalid'',
                             reason := Some ''Missing target path for undo.''\<rparr>))
      | Some target0 \<Rightarrow>
          (case assert_same_filesystem fs source target0 of
             Inl err \<Rightarrow> (fs, Inl err)
           | Inr _ \<Rightarrow>
               (case compute_sha256 fs source of
                  Inl err \<Rightarrow> (fs, Inl err)
                | Inr current_hash \<Rightarrow>
                    if truthy (hash e) \<and> current_hash \<noteq> the (hash e)
                    then (fs, Inl (UndoSafetyError ''Integrity mismatch before undo move.''))
                    else (case (if exists_path fs target0
                                then unique_destination fs
                                       (if status e = Some ''restore''
                                        then join conflict_dir [basename source] else target0)
                                       (hash e)
                                else Inr target0) of
                            Inl err \<Rightarrow> (fs, Inl err)
                          | Inr target \<Rightarrow>
                              (case ensure_directory fs (dirname target) of
                                 Inl err \<Rightarrow> (fs, Inl err)
                               | Inr fs1 \<Rightarrow>
                                   (case move fs1 source target of
                                      Inl err \<Rightarrow> (fs1, Inl err)
                                    | Inr fs2 \<Rightarrow>
                                        if \<not> exists_path fs2 target
                                        then (fs2, Inl (UndoSafetyError ''Undo move failed.''))
                                        else (case compute_sha256 fs2 target of
                                                Inl err \<Rightarrow> (fs2, Inl err)
                                              | Inr moved_hash \<Rightarrow>
                                                  if truthy (hash e) \<and> moved_hash \<noteq> the (hash e)
                                                  then (fs2, Inl (UndoSafetyError
                                                          ''Integrity mismatch after undo move.''))
                                                  else (fs2, Inr
                                                    (if status e = Some ''restore''
                                                        \<and> Some target = original_path e
                                                     then e\<lparr>target_path := Some target,
                                                            status := Some ''restored'',
                                                            reason := Some ''Restored to original path.''\<rparr>
                                                     else e\<lparr>target_path := Some target,
                                                            status := Some ''conflict_routed'',
                                                            reason := Some
                                                              ''Original path occupied; routed to REVIEW.''\<rparr>)))))))))"

text \<open>One entry of the loop of \<open>execute_undo\<close>.\<close>

definition undo_entry :: "filesystem \<Rightarrow> path \<Rightarrow> entry \<Rightarrow> entry outcome" where
  "undo_entry fs conflict_dir e =
     (if status e \<noteq> Some ''restore'' \<and> status e \<noteq> Some ''conflict'' then (fs, Inr e)
      else if new_path e = None \<or> \<not> exists_path fs (the (new_path e))
      then (case (case original_path e of
                    Some original \<Rightarrow>
                      if exists_path fs original then hash_matches fs original (hash e)
                      else Inr False
                  | None \<Rightarrow> Inr False) of
              Inl err \<Rightarrow> (fs, Inl err)
            | Inr True \<Rightarrow>
                (fs, Inr (e\<lparr>status := Some ''skipped_restored'', reason := Some ''Already restored.'',
                            target_path := None\<rparr>))
            | Inr False \<Rightarrow>
                (fs, Inr (e\<lparr>status := Some ''skipped_missing'',
                            reason := Some ''Source missing at execution.'',
                            target_path := None\<rparr>)))
      else undo_move fs conflict_dir e (the (new_path e)))"

fun undo_entries :: "filesystem \<Rightarrow> path \<Rightarrow> entry list \<Rightarrow> entry list outcome" where
  "undo_entries fs conflict_dir [] = (fs, Inr [])"
| "undo_entries fs conflict_dir (e # es) =
     (case undo_entry fs conflict_dir e of
        (fs1, Inl err) \<Rightarrow> (fs1, Inl err)
      | (fs1, Inr r) \<Rightarrow>
          (case undo_entries fs1 conflict_dir es of
             (fs2, Inl err) \<Rightarrow> (fs2, Inl err)
           | (fs2, Inr rs) \<Rightarrow> (fs2, Inr (r # rs))))"

text \<open>\<open>execute_undo\<close>: the entries of the summary.\<close>

definition execute_undo :: "filesystem \<Rightarrow> undo_plan \<Rightarrow> entry list outcome" where
  "execute_undo fs plan =
     (case ensure_directory fs (conflict_root plan) of
        Inl err \<Rightarrow> (fs, Inl err)
      | Inr fs1 \<Rightarrow> undo_entries fs1 (conflict_root plan) (entries plan))"

text \<open>
  An entry that is already undone: both paths are recorded, nothing is at the new path,
  and the file at the original path has the recorded hash.
\<close>

definition already_restored :: "filesystem \<Rightarrow> entry \<Rightarrow> bool" where
  "already_restored fs e =
     (case (original_path e, new_path e) of
        (Some original, Some new) \<Rightarrow>
          \<not> exists_path fs new \<and> exists_path fs original
          \<and> hash_matches fs original (hash e) = Inr True
      | _ \<Rightarrow> False)"

definition skipped_restored :: "entry \<Rightarrow> entry" where
  "skipped_restored e =
     e\<lparr>status := Some ''skipped_restored'', reason := Some ''Already restored.'',
       target_path := None\<rparr>"


section \<open>The checks of the weak band, in the words of the specification\<close>




section \<open>The rule chain of master selection as an order\<close>

text \<open>
  The capture time as the last rule ranks it: a record with a timestamp above one
  without, and an older timestamp above a newer one (every component negated).
\<close>

fun ts_key :: "datetime option \<Rightarrow> bool \<times> datetime" where
  "ts_key None = (False, (0, 0, 0, 0, 0, 0, 0))"
| "ts_key (Some (y, mo, d, h, mi, s, us)) = (True, (- y, - mo, - d, - h, - mi, - s, - us))"

text \<open>The pixel count of a record: width times height, 0 without a resolution.\<close>

definition pixel_count :: "fileinfo \<Rightarrow> int" where
  "pixel_count f = (case resolution f of None \<Rightarrow> 0 | Some (w, h) \<Rightarrow> w * h)"

text \<open>The number of EXIF fields a record carries, of the four it can carry.\<close>

definition exif_fields :: "fileinfo \<Rightarrow> int" where
  "exif_fields f =
     int (length (filter (\<lambda>present. present)
       [exif_datetime f \<noteq> None, exif_gps f \<noteq> None, exif_camera f \<noteq> None,
        exif_orientation f \<noteq> None]))"

text \<open>RAW, pixel count, size, number of EXIF fields, GPS, capture time: compared in this order.\<close>

definition rank_key :: "fileinfo \<Rightarrow> bool \<times> int \<times> int \<times> int \<times> bool \<times> bool \<times> datetime" where
  "rank_key f =
     (is_raw f, pixel_count f, file_size f, exif_fields f, exif_gps f \<noteq> None,
      ts_key (exif_datetime f))"

text \<open>
  The HEIC rule of \<open>is_better\<close> decides between \<open>h\<close> and \<open>j\<close>: same RAW flag, same
  resolution, \<open>h\<close> a HEIC and \<open>j\<close> a JPEG, and \<open>h\<close> with the metadata advantage.
\<close>

definition heic_rule_fires :: "fileinfo \<Rightarrow> fileinfo \<Rightarrow> bool" where
  "heic_rule_fires h j =
     (is_raw h = is_raw j \<and> res_or_zero h = res_or_zero j \<and> fmt h = ''heic''
      \<and> (fmt j = ''jpg'' \<or> fmt j = ''jpeg'')
      \<and> metadata_advantage (exif_count h) (exif_count j) (has_gps h) (has_gps j))"


section \<open>Sample records\<close>

text \<open>
  Twenty-two files of one folder. All but the last have the perceptual hash 0; the last
  has the hash 7, three bits away. Only the first and the last carry a resolution and a
  capture time, the same ones.
\<close>

definition photo :: "string \<Rightarrow> string \<Rightarrow> int \<Rightarrow> string option \<Rightarrow> fileinfo" where
  "photo name fm sz camera =
     \<lparr>path = [''photos'', name], file_size = sz, format = fm, resolution = Some (4000, 3000),
      exif_datetime = Some (2022, 1, 1, 0, 0, 0, 0), exif_gps = None, exif_camera = camera,
      exif_orientation = None, sha256 = None, phash = None, is_raw = False,
      timestamp_reliable = True, review_reason = None, selection_reason = None\<rparr>"








text \<open>
  A library in which the planned name \<open>a.jpg\<close> and the suffixed name are both taken by
  other content, and the first numbered name is free.
\<close>

definition collision_fs :: filesystem where
  "collision_fs =
     \<lparr>nodes = [[] \<mapsto> Dir, [''src''] \<mapsto> Dir, [''lib''] \<mapsto> Dir,
               [''src'', ''a.jpg''] \<mapsto> File ''h1'', [''lib'', ''a.jpg''] \<mapsto> File ''h2'',
               [''lib'', ''a-h1.jpg''] \<mapsto> File ''h3''],
      links = (\<lambda>p. False),
      realpath = (\<lambda>p. p),
      listing = (\<lambda>d. if d = [''lib''] then [''a.jpg'', ''a-h1.jpg'']
                      else if d = [''src''] then [''a.jpg'']
                      else if d = [] then [''src'', ''lib''] else []),
      device = (\<lambda>p. 1)\<rparr>"

text \<open>
  A library after an undo: the photo is back at its original path, the conflict folder
  of the batch exists, and the manifest still names the path in the library.
\<close>

definition restored_fs :: filesystem where
  "restored_fs =
     \<lparr>nodes = [[] \<mapsto> Dir, [''src''] \<mapsto> Dir, [''library''] \<mapsto> Dir,
               [''library'', ''2024''] \<mapsto> Dir, [''library'', ''2024'', ''2024-01''] \<mapsto> Dir,
               [''library'', ''REVIEW''] \<mapsto> Dir,
               [''library'', ''REVIEW'', ''UNDO_CONFLICTS''] \<mapsto> Dir,
               [''library'', ''REVIEW'', ''UNDO_CONFLICTS'', ''batch123''] \<mapsto> Dir,
               [''src'', ''photo.jpg''] \<mapsto> File ''c0ffee''],
      links = (\<lambda>p. False),
      realpath = (\<lambda>p. p),
      listing = (\<lambda>d. []),
      device = (\<lambda>p. 1)\<rparr>"

definition manifest_entry :: entry where
  "manifest_entry =
     \<lparr>original_path = Some [''src'', ''photo.jpg''],
      new_path = Some [''library'', ''2024'', ''2024-01'', ''photo.jpg''],
      hash = Some ''c0ffee'', status = None, reason = None, target_path = None\<rparr>"




section \<open>Storage accounting\<close>

lemma sum_move_sizes_acc:
  "sum_move_sizes acc as = acc + total_size is_move_master as + total_size is_quarantine as"
proof (induction as arbitrary: acc)
  case Nil
  show ?case by (simp add: total_size_def)
next
  case (Cons a as)
  show ?case
    by (cases a) (simp_all add: Cons.IH total_size_def)
qed

text \<open>
  C4. For every action list, \<open>required_space\<close> is the sum of the sizes of the
  \<open>MoveMaster\<close> actions plus the sum of the sizes of the \<open>MoveToQuarantineExact\<close>
  actions, whatever free space is reported; a \<open>MarkNearDuplicate\<close> or \<open>CreateFolder\<close>
  action anywhere in the list adds nothing; and the plan with a 10-byte master, a 5-byte
  quarantined duplicate and a 3-byte near-duplicate mark needs 15 bytes.
\<close>

theorem required_space_counts_moves_only:
  "fst (calculate_storage acts free) =
     total_size is_move_master acts + total_size is_quarantine acts
   \<and> required_space (pre @ MarkNearDuplicateAction s m h n # post) = required_space (pre @ post)
   \<and> required_space (pre @ CreateFolderAction p # post) = required_space (pre @ post)
   \<and> required_space
        [MoveMasterAction [''src'', ''a.jpg''] [''dst'', ''2021'', ''2021-01'', ''a.jpg''] None 10 None,
         MoveToQuarantineExactAction [''src'', ''b.jpg''] [''dst'', ''QUARANTINE_EXACT'', ''b.jpg''] None 5,
         MarkNearDuplicateAction [''src'', ''c.jpg''] [''src'', ''a.jpg''] None 3] = 15"
  by (simp add: calculate_storage_def required_space_def sum_move_sizes_acc total_size_def)

section \<open>Near-duplicate predicate\<close>

lemma normalize_sensitivity_conservative:
  "normalize_sensitivity (Some ''conservative'') = ''conservative''"
  by code_simp

lemma thresholds_conservative: "SENSITIVITY_THRESHOLDS ''conservative'' = Inr (2, 5)"
  by (simp add: SENSITIVITY_THRESHOLDS_def PHASH_STRONG_def PHASH_WEAK_def)





section \<open>Sensitivity tiers\<close>

lemma group_duplicates_normalized:
  assumes "normalize_sensitivity v = normalize_sensitivity w"
  shows "group_duplicates fs v = group_duplicates fs w"
  unfolding group_duplicates_def group_duplicates_body_def assms by (rule refl)

text \<open>
  C10. For a sensitivity that is \<open>None\<close>, or a string that after \<open>strip\<close> and \<open>lower\<close>
  is none of \<open>conservative\<close>, \<open>balanced\<close>, \<open>aggressive\<close> (the empty string among them),
  the name is normalised to \<open>conservative\<close>; \<open>are_near_duplicates\<close>, with its
  diagnostics, and \<open>group_duplicates\<close> return what they return for
  \<open>"conservative"\<close>; and the lookup of the thresholds raises no \<open>KeyError\<close>.
\<close>

theorem unknown_sensitivity_is_conservative:
  assumes "case v of None \<Rightarrow> True
           | Some t \<Rightarrow> lower (strip t) \<notin> {''conservative'', ''balanced'', ''aggressive''}"
  shows "normalize_sensitivity v = ''conservative''
       \<and> near_dup a b v = near_dup a b (Some ''conservative'')
       \<and> (\<exists>r. near_dup a b v = Inr r)
       \<and> are_near_duplicates a b v = are_near_duplicates a b (Some ''conservative'')
       \<and> group_duplicates fs v = group_duplicates fs (Some ''conservative'')"
proof -
  have n: "normalize_sensitivity v = ''conservative''"
    using assms by (cases v) (auto simp: normalize_sensitivity_def Let_def)
  then have eq: "normalize_sensitivity v = normalize_sensitivity (Some ''conservative'')"
    by (simp add: normalize_sensitivity_conservative)
  have nd: "near_dup a b v = near_dup a b (Some ''conservative'')"
    by (simp add: near_dup_def eq)
  have ok: "\<exists>r. near_dup a b v = Inr r"
    by (cases "weak_band_checks a b")
      (auto simp: near_dup_def n thresholds_conservative Let_def)
  show ?thesis
    using n nd ok group_duplicates_normalized [OF eq]
    by (simp add: are_near_duplicates_def)
qed


section \<open>Master selection\<close>

lemma neg_pair_less:
  fixes a b :: int
  assumes "(k < l) = (u < t)"
  shows "((- a, k) < (- b, l)) = ((b, u) < (a, t))"
  using assms by auto

lemma neg_datetime_less:
  "(snd (ts_key (Some a)) < snd (ts_key (Some b))) = (b < a)"
proof -
  obtain y mo d h mi s us where a: "a = (y, mo, d, h, mi, s, us)"
    by (metis prod_cases7)
  obtain y' mo' d' h' mi' s' us' where b: "b = (y', mo', d', h', mi', s', us')"
    by (metis prod_cases7)
  have 0: "(- us < - us') = (us' < us)" by simp
  note 1 = neg_pair_less [OF 0, of s s']
  note 2 = neg_pair_less [OF 1, of mi mi']
  note 3 = neg_pair_less [OF 2, of h h']
  note 4 = neg_pair_less [OF 3, of d d']
  note 5 = neg_pair_less [OF 4, of mo mo']
  note 6 = neg_pair_less [OF 5, of y y']
  show ?thesis unfolding a b ts_key.simps snd_conv by (rule 6)
qed

lemma ts_key_less:
  "(ts_key s < ts_key t) =
     (case (t, s) of
        (None, _) \<Rightarrow> False
      | (Some _, None) \<Rightarrow> True
      | (Some tt, Some ss) \<Rightarrow> tt < ss)"
proof (cases s; cases t)
  fix ss tt assume "s = Some ss" "t = Some tt"
  moreover have "fst (ts_key (Some ss)) = True" "fst (ts_key (Some tt)) = True"
    by (cases ss; simp) (cases tt; simp)
  ultimately show ?thesis
    using neg_datetime_less [of ss tt]
    by (simp add: less_prod_def)
next
  fix tt assume "s = None" "t = Some tt"
  then show ?thesis by (cases tt) simp
next
  fix ss assume "s = Some ss" "t = None"
  then show ?thesis by (cases ss) simp
qed simp


lemma is_better_tail_key:
  "fst (is_better_tail c m) =
     ((file_size m, exif_count m, has_gps m, ts_key (exif_datetime m))
        < (file_size c, exif_count c, has_gps c, ts_key (exif_datetime c)))"
proof -
  have ts: "(ts_key (exif_datetime m) < ts_key (exif_datetime c)) =
      fst (case (exif_datetime c, exif_datetime m) of
              (None, None) \<Rightarrow> (False, None)
            | (None, Some _) \<Rightarrow> (False, Some ''OLDEST_CAPTURE_WINS'')
            | (Some _, None) \<Rightarrow> (True, Some ''OLDEST_CAPTURE_WINS'')
            | (Some candidate_ts, Some current_ts) \<Rightarrow>
                if candidate_ts \<noteq> current_ts
                then (candidate_ts < current_ts, Some ''OLDEST_CAPTURE_WINS'')
                else (False, None))"
    unfolding ts_key_less by (simp split: option.splits)
  show ?thesis
    unfolding is_better_tail_def less_prod_simp ts
    by (cases "has_gps c"; cases "has_gps m") (simp_all, linarith+)
qed

lemma pixels_pixel_count: "pixels f = pixel_count f"
  by (simp add: pixels_def pixel_count_def res_or_zero_def split: option.splits prod.splits)

lemma exif_count_exif_fields: "exif_count f = exif_fields f"
  by (simp add: exif_count_def exif_fields_def)

lemma is_better_key:
  assumes "\<not> heic_rule_fires c m" and "\<not> heic_rule_fires m c"
  shows "fst (is_better c m) = (rank_key m < rank_key c)"
proof -
  have tail: "fst (is_better c m) =
     (if is_raw c \<noteq> is_raw m then is_raw c
      else if pixels c \<noteq> pixels m then pixels c > pixels m
      else fst (is_better_tail c m))"
    using assms unfolding is_better_def heic_rule_fires_def
    by (simp add: eq_commute [of "res_or_zero m"] eq_commute [of "is_raw m"]) blast
  show ?thesis
    unfolding tail rank_key_def less_prod_simp [of "is_raw m"]
      less_prod_simp [of "pixel_count m"] is_better_tail_key
      pixels_pixel_count exif_count_exif_fields has_gps_def
    by (cases "is_raw c"; cases "is_raw m") (simp_all, linarith+)
qed



lemma heic_rule_wins: "heic_rule_fires c m \<Longrightarrow> fst (is_better c m)"
  unfolding is_better_def heic_rule_fires_def pixels_def by simp

lemma heic_rule_loses:
  assumes "heic_rule_fires m c"
  shows "\<not> fst (is_better c m)"
proof -
  have "fmt c \<noteq> ''heic''"
    using assms unfolding heic_rule_fires_def by auto
  then show ?thesis
    using assms unfolding is_better_def heic_rule_fires_def pixels_def by simp
qed



lemma is_better_order_if_heic_agrees:
  assumes "heic_rule_fires x y \<longrightarrow> rank_key y < rank_key x"
    and "heic_rule_fires y x \<longrightarrow> rank_key x < rank_key y"
  shows "fst (is_better x y) = (rank_key y < rank_key x)"
proof (cases "heic_rule_fires x y")
  case True
  then have "fst (is_better x y)" by (rule heic_rule_wins)
  moreover have "rank_key y < rank_key x" using True assms(1) by simp
  ultimately show ?thesis by simp
next
  case False
  show ?thesis
  proof (cases "heic_rule_fires y x")
    case True
    then have "\<not> fst (is_better x y)" by (rule heic_rule_loses)
    moreover have "rank_key x < rank_key y" using True assms(2) by simp
    then have "\<not> rank_key y < rank_key x" unfolding not_less by (rule less_imp_le)
    ultimately show ?thesis by simp
  next
    case no: False
    from False no show ?thesis by (rule is_better_key)
  qed
qed

lemma is_better_transitive_if_heic_agrees:
  assumes "\<forall>x \<in> S. \<forall>y \<in> S. heic_rule_fires x y \<longrightarrow> rank_key y < rank_key x"
  shows "\<forall>x \<in> S. \<forall>y \<in> S. \<forall>z \<in> S.
           fst (is_better x y) \<and> fst (is_better y z) \<longrightarrow> fst (is_better x z)"
proof (intro ballI impI)
  fix x y z
  assume m: "x \<in> S" "y \<in> S" "z \<in> S" and b: "fst (is_better x y) \<and> fst (is_better y z)"
  have ord: "fst (is_better u v) = (rank_key v < rank_key u)" if "u \<in> S" "v \<in> S" for u v
    using assms that by (intro is_better_order_if_heic_agrees) blast+
  have "rank_key y < rank_key x" "rank_key z < rank_key y"
    using b ord m by blast+
  then have "rank_key z < rank_key x" by (rule less_trans [rotated])
  then show "fst (is_better x z)"
    using ord m by blast
qed






section \<open>Target paths\<close>








section \<open>Destination validation\<close>
















section \<open>Safe move\<close>

lemma ensure_directory_keeps_files:
  assumes "ensure_directory fs d = Inr fs1" and "nodes fs p = Some (File h)"
  shows "nodes fs1 p = Some (File h)"
proof -
  have nofile: "\<not> list_ex (isfile fs) (ancestors_and_self d)"
    using assms(1) by (auto simp: ensure_directory_def split: if_splits)
  have "isfile fs p"
    using assms(2) by (simp add: isfile_def)
  with nofile have "p \<notin> set (ancestors_and_self d)"
    by (auto simp: list_ex_iff)
  with assms show ?thesis
    by (auto simp: ensure_directory_def split: if_splits)
qed

lemma choose_target_free_or_same:
  assumes "choose_target fs source dest root_dir = Inr final"
  shows "nodes fs final = None
       \<or> (\<exists>h. nodes fs final = Some (File h) \<and> nodes fs source = Some (File h))"
  using assms
  by (auto simp: choose_target_def Let_def exists_path_def compute_sha256_def
      split: sum.splits if_splits option.splits node.splits)

lemma move_file_nodes:
  assumes "nodes fs source = Some (File hs)" and "move fs source final = Inr fs2"
  shows "nodes fs2 = ((nodes fs)(source := None))(final \<mapsto> File hs)"
  using assms by (auto simp: move_def)

lemma safe_move_keeps_other_files:
  assumes "nodes fs source = Some (File hs)"
    and "nodes fs p = Some (File h)" and "p \<noteq> source"
  shows "nodes (fst (safe_move fs source dest allowed_root)) p = Some (File h)"
proof (cases allowed_root)
  case None
  then show ?thesis using assms by (simp add: safe_move_def)
next
  case (Some r)
  show ?thesis
  proof (cases "ensure_safe fs (dirname dest) r")
    case (Inl e)
    then show ?thesis using assms Some by (simp add: safe_move_def)
  next
    case (Inr u)
    note safe = this
    show ?thesis
    proof (cases "ensure_directory fs (dirname dest)")
      case (Inl e)
      then show ?thesis using assms Some safe by (simp add: safe_move_def)
    next
      case (Inr fs1)
      note ed = this
      have p1: "nodes fs1 p = Some (File h)"
        using ed assms(2) by (rule ensure_directory_keeps_files)
      have s1: "nodes fs1 source = Some (File hs)"
        using ed assms(1) by (rule ensure_directory_keeps_files)
      show ?thesis
      proof (cases "choose_target fs1 source dest r")
        case (Inl e)
        then show ?thesis using p1 Some safe ed by (simp add: safe_move_def)
      next
        case (Inr final)
        note ct = this
        from choose_target_free_or_same [OF ct] s1
        have free: "nodes fs1 final = None \<or> nodes fs1 final = Some (File hs)"
          by auto
        show ?thesis
        proof (cases "move fs1 source final")
          case (Inl e)
          then show ?thesis using p1 Some safe ed ct by (simp add: safe_move_def)
        next
          case (Inr fs2)
          from move_file_nodes [OF s1 Inr]
          have n2: "nodes fs2 = ((nodes fs1)(source := None))(final \<mapsto> File hs)" .
          have "nodes fs2 p = Some (File h)"
            using n2 p1 free assms(3) by auto
          then show ?thesis
            using Some safe ed ct Inr by (simp add: safe_move_def)
        qed
      qed
    qed
  qed
qed

lemma safe_move_result_holds_source:
  assumes "nodes fs source = Some (File hs)"
    and "snd (safe_move fs source dest allowed_root) = Inr final"
  shows "nodes (fst (safe_move fs source dest allowed_root)) final = Some (File hs)"
proof -
  from assms(2) obtain r u fs1 t fs2 where
    steps: "allowed_root = Some r" "ensure_safe fs (dirname dest) r = Inr u"
      "ensure_directory fs (dirname dest) = Inr fs1"
      "choose_target fs1 source dest r = Inr t" "move fs1 source t = Inr fs2"
    by (auto simp: safe_move_def split: option.splits sum.splits if_splits)
  have s1: "nodes fs1 source = Some (File hs)"
    using steps(3) assms(1) by (rule ensure_directory_keeps_files)
  from move_file_nodes [OF s1 steps(5)]
  have n2: "nodes fs2 = ((nodes fs1)(source := None))(t \<mapsto> File hs)" .
  then have ex: "exists_path fs2 t"
    by (simp add: exists_path_def)
  have "safe_move fs source dest allowed_root = (fs2, Inr t)"
    using steps ex by (simp add: safe_move_def)
  with assms(2) n2 show ?thesis by auto
qed


lemma symlink_walk_nodes:
  "symlink_walk (fs\<lparr>nodes := n\<rparr>) t cur parts = symlink_walk fs t cur parts"
  by (induction parts arbitrary: cur) (simp_all add: islink_def)

lemma path_violation_message_nodes:
  "path_violation_message (fs\<lparr>nodes := n\<rparr>) t r = path_violation_message fs t r"
  by (simp add: path_violation_message_def symlink_walk_nodes Let_def)

lemma ensure_directory_view:
  assumes "ensure_directory fs d = Inr fs1"
  shows "path_violation_message fs1 t r = path_violation_message fs t r"
    and "exists_path fs q \<Longrightarrow> exists_path fs1 q"
  using assms
  by (auto simp: ensure_directory_def path_violation_message_nodes exists_path_def
      split: if_splits)

lemma join_dirname_basename:
  "dest \<noteq> [] \<Longrightarrow> last dest \<noteq> [] \<Longrightarrow> join (dirname dest) [basename dest] = dest"
  by (simp add: join_def dirname_def basename_def)

lemma safe_move_unresolvable:
  assumes "nodes fs source = Some (File hs)" and "nodes fs dest = Some (File hx)"
    and "hx \<noteq> hs" and "dest \<noteq> []" and "last dest \<noteq> []"
    and "exists_path fs (dirname dest @ [suffixed_name (basename dest) hs])"
    and "path_violation_message fs (dirname dest) r = None"
    and "path_violation_message fs dest r = None"
    and "\<not> list_ex (isfile fs) (ancestors_and_self (dirname dest))"
  shows "snd (safe_move fs source dest (Some r)) = Inl (UnresolvableCollision source dest)"
proof -
  obtain fs1 where ed: "ensure_directory fs (dirname dest) = Inr fs1"
    using assms(9) by (simp add: ensure_directory_def)
  have s1: "nodes fs1 source = Some (File hs)" and d1: "nodes fs1 dest = Some (File hx)"
    using ed assms(1,2) by (auto intro: ensure_directory_keeps_files)
  have x1: "exists_path fs1 (dirname dest @ [suffixed_name (basename dest) hs])"
    using ed assms(6) by (rule ensure_directory_view(2))
  have v1: "path_violation_message fs1 dest r = None"
    using ensure_directory_view(1) [OF ed] assms(8) by simp
  have sn: "suffixed_name (basename dest) hs \<noteq> []"
    by (simp add: suffixed_name_def split: prod.splits)
  have t: "join (dirname dest) [basename dest] = dest"
    using assms(4,5) by (rule join_dirname_basename)
  have sfx: "join (dirname dest) [suffixed_name (basename dest) hs]
               = dirname dest @ [suffixed_name (basename dest) hs]"
    using sn by (simp add: join_def)
  have "choose_target fs1 source dest r = Inl (UnresolvableCollision source dest)"
    using s1 d1 x1 v1 assms(3)
    by (simp add: choose_target_def Let_def t sfx ensure_safe_def exists_path_def
        compute_sha256_def)
  then show ?thesis
    using ed assms(7) by (simp add: safe_move_def ensure_safe_def)
qed

text \<open>
  C2, as the code has it. When the source is a regular file, \<open>safe_move\<close>, whatever it
  returns or raises, leaves every other regular file with the content it had, and the
  path it returns holds the content of the source: a file is replaced only by the same
  bytes. When the destination holds other content and the name
  \<open><stem>-<src_hash><ext>\<close> beside it is taken too, \<open>safe_move\<close> raises the
  unresolvable-collision error at once; no numbered name is tried.
\<close>

theorem safe_move_never_overwrites:
  assumes "nodes fs source = Some (File hs)"
  shows "(\<forall>p h. nodes fs p = Some (File h) \<and> p \<noteq> source \<longrightarrow>
            nodes (fst (safe_move fs source dest allowed_root)) p = Some (File h))
       \<and> (\<forall>final. snd (safe_move fs source dest allowed_root) = Inr final \<longrightarrow>
            nodes (fst (safe_move fs source dest allowed_root)) final = Some (File hs))
       \<and> ((\<exists>hx. nodes fs dest = Some (File hx) \<and> hx \<noteq> hs) \<and> dest \<noteq> [] \<and> last dest \<noteq> []
            \<and> exists_path fs (dirname dest @ [suffixed_name (basename dest) hs])
            \<and> path_violation_message fs (dirname dest) r = None
            \<and> path_violation_message fs dest r = None
            \<and> \<not> list_ex (isfile fs) (ancestors_and_self (dirname dest)) \<longrightarrow>
            snd (safe_move fs source dest (Some r)) = Inl (UnresolvableCollision source dest))"
  using safe_move_keeps_other_files [OF assms] safe_move_result_holds_source [OF assms]
    safe_move_unresolvable [OF assms]
  by blast

theorem safe_move_never_overwrites_witness:
  "nodes collision_fs [''src'', ''a.jpg''] = Some (File ''h1'')
   \<and> nodes collision_fs [''lib'', ''a.jpg''] = Some (File ''h2'')
   \<and> nodes (fst (safe_move collision_fs [''src'', ''a.jpg''] [''lib'', ''a.jpg''] (Some [''lib''])))
        [''lib'', ''a.jpg''] = Some (File ''h2'')"
proof -
  have s: "nodes collision_fs [''src'', ''a.jpg''] = Some (File ''h1'')"
    and d: "nodes collision_fs [''lib'', ''a.jpg''] = Some (File ''h2'')"
    by (simp_all add: collision_fs_def)
  from safe_move_never_overwrites [OF s, of "[''lib'', ''a.jpg'']" "Some [''lib'']"] s d
  show ?thesis by simp
qed

text \<open>
  In the sample library the planned name and the suffixed name are taken and the name
  numbered 1 is free: \<open>safe_move\<close> raises, the source stays where it was and the
  numbered name stays free.
\<close>

theorem safe_move_tries_no_numbered_name:
  "suffixed_name ''a.jpg'' ''h1'' = ''a-h1.jpg''
   \<and> \<not> exists_path collision_fs [''lib'', ''a-h1-1.jpg'']
   \<and> snd (safe_move collision_fs [''src'', ''a.jpg''] [''lib'', ''a.jpg''] (Some [''lib'']))
       = Inl (UnresolvableCollision [''src'', ''a.jpg''] [''lib'', ''a.jpg''])
   \<and> nodes (fst (safe_move collision_fs [''src'', ''a.jpg''] [''lib'', ''a.jpg''] (Some [''lib''])))
        [''src'', ''a.jpg''] = Some (File ''h1'')
   \<and> \<not> exists_path
         (fst (safe_move collision_fs [''src'', ''a.jpg''] [''lib'', ''a.jpg''] (Some [''lib''])))
         [''lib'', ''a-h1-1.jpg'']"
  by code_simp

section \<open>Merge execution\<close>

lemma ensure_directories_no_mismatch:
  "snd r \<noteq> Inl (HashMismatch p) \<Longrightarrow>
   snd (foldl (\<lambda>(cur, r) d. case r of
                            Inl e \<Rightarrow> (cur, Inl e)
                          | Inr _ \<Rightarrow> (case ensure_directory cur d of
                                       Inl e \<Rightarrow> (cur, Inl e)
                                     | Inr cur' \<Rightarrow> (cur', Inr ())))
       r ds) \<noteq> Inl (HashMismatch p)"
proof (induction ds arbitrary: r)
  case (Cons d ds)
  show ?case
    using Cons.prems
    by (cases r) (auto intro!: Cons.IH simp: ensure_directory_def split: sum.splits if_splits)
qed simp

lemma ensure_directories_result:
  "snd (ensure_directories fs ds) \<noteq> Inl (HashMismatch p)"
  unfolding ensure_directories_def by (rule ensure_directories_no_mismatch) simp

lemma ensure_folder_result:
  "snd (ensure_folder fs b f) \<noteq> Inl (HashMismatch p)"
  using ensure_directories_result
  by (auto simp: ensure_folder_def Let_def ensure_directory_def
      split: option.splits if_splits list.splits sum.splits)

lemma ensure_folders_result:
  "snd (ensure_folders fs b fs') \<noteq> Inl (HashMismatch p)"
proof (induction fs' arbitrary: fs)
  case (Cons f rest)
  show ?case
    using Cons.IH ensure_folder_result [of fs b f p]
    by (cases "ensure_folder fs b f") (auto split: sum.splits)
qed simp

lemma ensure_structure_result:
  "snd (ensure_structure fs b m fs') \<noteq> Inl (HashMismatch p)"
  using ensure_directories_result ensure_folders_result
  by (auto simp: ensure_structure_def ensure_directory_def split: sum.splits if_splits)

lemma safe_move_result:
  "snd (safe_move fs s d r) \<noteq> Inl (HashMismatch p)"
  by (auto simp: safe_move_def choose_target_def Let_def ensure_safe_def ensure_directory_def
      compute_sha256_def
      split: option.splits sum.splits if_splits node.splits)

lemma verify_hash_mismatch:
  "verify_hash fs h d = Inl (HashMismatch p) \<Longrightarrow> truthy h"
  by (auto simp: verify_hash_def split: if_splits)

lemma execute_move_mismatch:
  "snd (execute_move fs r a) = Inl (HashMismatch p) \<Longrightarrow> truthy (sha256_of a)"
  using safe_move_result [of fs "src a" "dst a" r p]
  by (auto simp: execute_move_def split: prod.splits sum.splits dest: verify_hash_mismatch)

lemma execute_action_mismatch:
  "snd (execute_action fs r plan a) = Inl (HashMismatch p) \<Longrightarrow>
     is_move_action a \<and> truthy (sha256_of a)"
  by (cases a)
     (auto simp: execute_action_def ensure_directory_def split: if_splits
        dest: execute_move_mismatch)

lemma execute_actions_mismatch:
  "snd (execute_actions fs r plan done_actions as) = Inl (HashMismatch p) \<Longrightarrow>
     \<exists>a \<in> set as. is_move_action a \<and> truthy (sha256_of a)"
proof (induction as arbitrary: fs done_actions)
  case (Cons a as)
  show ?case
  proof (cases "execute_action fs r (plan\<lparr>actions := done_actions @ a # as\<rparr>) a")
    case (Pair fs1 res)
    show ?thesis
    proof (cases res)
      case (Inl e)
      with Pair Cons.prems have "e = HashMismatch p" by simp
      with Pair Inl have "snd (execute_action fs r (plan\<lparr>actions := done_actions @ a # as\<rparr>) a)
          = Inl (HashMismatch p)" by simp
      from execute_action_mismatch [OF this] show ?thesis by simp
    next
      case (Inr v)
      obtain da rn where v: "v = (da, rn)" by (cases v)
      have "snd (execute_actions fs1 r plan (done_actions @ [da]) as) = Inl (HashMismatch p)"
        using Cons.prems Pair Inr v by (auto split: prod.splits sum.splits)
      from Cons.IH [OF this] show ?thesis by auto
    qed
  qed
qed simp


lemma execute_merge_mismatch:
  assumes "snd (execute_merge fs plan) = Inl (MergeExecutionError (HashMismatch p))"
  shows "\<exists>a \<in> set (actions plan). is_move_action a \<and> truthy (sha256_of a)"
proof -
  define droot where "droot = (case destination_path plan of
                                Some r \<Rightarrow> Some r
                              | None \<Rightarrow> infer_destination_root plan)"
  define folders where "folders = map folder_path (filter is_create_folder (actions plan))"
  define pre where "pre = (case droot of
                 Some r \<Rightarrow> ensure_structure fs r ''on'' folders
               | None \<Rightarrow> (fs, Inr ()))"
  have pre_ok: "snd pre \<noteq> Inl (HashMismatch p)"
    using ensure_structure_result by (auto simp: pre_def split: option.splits)
  obtain fs1 r1 where pre_eq: "pre = (fs1, r1)" by (cases pre)
  have unfold: "execute_merge fs plan =
      (case pre of
           (fs1, Inl e) \<Rightarrow> (fs1, Inl (MergeExecutionError e))
         | (fs1, Inr _) \<Rightarrow>
             (case ensure_directories fs1 (map dirname folders) of
                (fs2, Inl e) \<Rightarrow> (fs2, Inl (MergeExecutionError e))
              | (fs2, Inr _) \<Rightarrow>
                  (case execute_actions fs2 droot plan [] (actions plan) of
                     (fs3, Inl e) \<Rightarrow> (fs3, Inl (MergeExecutionError e))
                   | (fs3, Inr (all_done, renamed)) \<Rightarrow>
                       (fs3, Inr (plan\<lparr>actions := all_done\<rparr>, renamed)))))"
    unfolding execute_merge_def Let_def pre_def droot_def folders_def by (rule refl)
  show ?thesis
  proof (cases r1)
    case (Inl e)
    with assms unfold pre_eq pre_ok show ?thesis by simp
  next
    case (Inr u)
    obtain fs2 r2 where ed: "ensure_directories fs1 (map dirname folders) = (fs2, r2)"
      by (cases "ensure_directories fs1 (map dirname folders)")
    have ed_ok: "r2 \<noteq> Inl (HashMismatch p)"
      using ensure_directories_result [of fs1 "map dirname folders" p] ed by simp
    show ?thesis
    proof (cases r2)
      case (Inl e)
      with assms unfold pre_eq Inr ed ed_ok show ?thesis by simp
    next
      case (Inr u2)
      have "snd (execute_actions fs2 droot plan [] (actions plan)) = Inl (HashMismatch p)"
        using assms unfold pre_eq \<open>r1 = Inr u\<close> ed Inr
        by (auto split: prod.splits sum.splits)
      then show ?thesis by (rule execute_actions_mismatch)
    qed
  qed
qed

text \<open>
  C9. A move action whose recorded hash is \<open>None\<close> or empty is applied exactly as
  \<open>safe_move\<close> applies it: no hash is computed after the move, and the result is the
  result of \<open>safe_move\<close>, which is never a hash mismatch. When \<open>execute_merge\<close> aborts
  with a hash mismatch, the plan holds a move action that records a hash.
\<close>

theorem unhashed_move_is_not_verified:
  "(\<not> truthy (sha256_of a) \<longrightarrow>
      verify_hash fs1 (sha256_of a) new_dst = Inr ()
      \<and> execute_move fs allowed_root a =
          map_prod id
            (map_sum id (\<lambda>new_dst. (with_dst a new_dst,
                                    if new_dst \<noteq> dst a then [(dst a, new_dst)] else [])))
            (safe_move fs (src a) (dst a) allowed_root)
      \<and> snd (execute_move fs allowed_root a) \<noteq> Inl (HashMismatch p))
   \<and> (snd (execute_merge fs plan) = Inl (MergeExecutionError (HashMismatch p)) \<longrightarrow>
        (\<exists>b \<in> set (actions plan). is_move_action b \<and> truthy (sha256_of b)))"
proof (intro conjI impI)
  assume h: "\<not> truthy (sha256_of a)"
  then show v: "verify_hash fs1 (sha256_of a) new_dst = Inr ()"
    by (simp add: verify_hash_def)
  show "execute_move fs allowed_root a =
          map_prod id
            (map_sum id (\<lambda>new_dst. (with_dst a new_dst,
                                    if new_dst \<noteq> dst a then [(dst a, new_dst)] else [])))
            (safe_move fs (src a) (dst a) allowed_root)"
    using h
    by (cases "safe_move fs (src a) (dst a) allowed_root")
       (auto simp: execute_move_def verify_hash_def split: sum.splits)
  show "snd (execute_move fs allowed_root a) \<noteq> Inl (HashMismatch p)"
    using h execute_move_mismatch by blast
next
  assume "snd (execute_merge fs plan) = Inl (MergeExecutionError (HashMismatch p))"
  then show "\<exists>b \<in> set (actions plan). is_move_action b \<and> truthy (sha256_of b)"
    by (rule execute_merge_mismatch)
qed

theorem unhashed_move_is_not_verified_witness:
  "\<not> truthy (sha256_of (MoveMasterAction [''src'', ''a.jpg''] [''lib'', ''b.jpg''] None 1 None))
   \<and> snd (execute_move collision_fs (Some [''lib''])
            (MoveMasterAction [''src'', ''a.jpg''] [''lib'', ''b.jpg''] None 1 None))
       = Inr (MoveMasterAction [''src'', ''a.jpg''] [''lib'', ''b.jpg''] None 1 None, [])"
proof -
  have h: "\<not> truthy (sha256_of (MoveMasterAction [''src'', ''a.jpg''] [''lib'', ''b.jpg''] None 1 None))"
    by simp
  have s: "snd (safe_move collision_fs [''src'', ''a.jpg''] [''lib'', ''b.jpg''] (Some [''lib'']))
             = Inr [''lib'', ''b.jpg'']"
    by code_simp
  from unhashed_move_is_not_verified [of "MoveMasterAction [''src'', ''a.jpg''] [''lib'', ''b.jpg''] None 1 None"
      _ _ collision_fs "Some [''lib'']"] h s
  show ?thesis
    by (cases "safe_move collision_fs [''src'', ''a.jpg''] [''lib'', ''b.jpg''] (Some [''lib''])")
       simp
qed

section \<open>Undo\<close>

lemma classify_already_restored:
  assumes "already_restored fs e"
  shows "classify fs conflict_dir e = Inr (planned e ''skipped_restored'' ''Already restored.'' None)"
  using assms
  by (auto simp: already_restored_def classify_def split: option.splits)

lemma planned_fields:
  "original_path (planned e st why t) = original_path e"
  "new_path (planned e st why t) = new_path e"
  "hash (planned e st why t) = hash e"
  "status (planned e st why t) = Some st"
  by (simp_all add: planned_def)

lemma classify_all_already_restored:
  assumes "\<forall>e \<in> set es. already_restored fs e"
  shows "classify_all fs conflict_dir es
           = Inr (map (\<lambda>e. planned e ''skipped_restored'' ''Already restored.'' None) es)"
  using assms by (induction es) (simp_all add: classify_already_restored)

lemma undo_entry_reclassifies:
  assumes "already_restored fs e" and "status e = Some ''restore'' \<or> status e = Some ''conflict''"
  shows "undo_entry fs conflict_dir e = (fs, Inr (skipped_restored e))"
  using assms
  by (auto simp: already_restored_def undo_entry_def skipped_restored_def split: option.splits)

lemma undo_entry_passes_on:
  "undo_entry fs conflict_dir (planned e ''skipped_restored'' ''Already restored.'' None)
     = (fs, Inr (planned e ''skipped_restored'' ''Already restored.'' None))"
  by (simp add: undo_entry_def planned_fields)

lemma undo_entries_pass_on:
  "undo_entries fs conflict_dir
      (map (\<lambda>e. planned e ''skipped_restored'' ''Already restored.'' None) es)
     = (fs, Inr (map (\<lambda>e. planned e ''skipped_restored'' ''Already restored.'' None) es))"
  by (induction es) (simp_all add: undo_entry_passes_on)

lemma ensure_directory_existing:
  assumes "\<forall>a \<in> set (ancestors_and_self d). isdir fs a"
  shows "ensure_directory fs d = Inr fs"
proof -
  have nofile: "\<not> list_ex (isfile fs) (ancestors_and_self d)"
    using assms by (auto simp: list_ex_iff isdir_def isfile_def)
  have "(\<lambda>q. if q \<in> set (ancestors_and_self d) then Some Dir else nodes fs q) = nodes fs"
    using assms by (auto simp: isdir_def)
  then show ?thesis
    using nofile by (simp add: ensure_directory_def)
qed

text \<open>
  C3. For an entry that records both paths, with nothing at its new path and, at its
  original path, a file with the recorded hash: \<open>prepare_undo_plan\<close> classifies it
  \<open>skipped_restored\<close>; \<open>execute_undo\<close> hands such a plan entry on unchanged and leaves
  the file system as it is; and an entry of an older plan that still says \<open>restore\<close> or
  \<open>conflict\<close> is reclassified \<open>skipped_restored\<close> at execution, again with no change to
  the file system. When a manifest holds only such entries and the conflict folder of
  the batch is there from the first run, the plan lists every entry as
  \<open>skipped_restored\<close> and the whole of \<open>execute_undo\<close> changes nothing.
\<close>

theorem undo_is_idempotent:
  "(already_restored fs e \<longrightarrow>
      classify fs conflict_dir e
        = Inr (planned e ''skipped_restored'' ''Already restored.'' None)
      \<and> undo_entry fs conflict_dir (planned e ''skipped_restored'' ''Already restored.'' None)
        = (fs, Inr (planned e ''skipped_restored'' ''Already restored.'' None))
      \<and> (status e = Some ''restore'' \<or> status e = Some ''conflict'' \<longrightarrow>
           undo_entry fs conflict_dir e = (fs, Inr (skipped_restored e))))
   \<and> ((\<forall>x \<in> set es. already_restored fs x)
        \<and> prepare_undo_plan fs batch_id es batch_id = Inr plan
        \<and> (\<forall>a \<in> set (ancestors_and_self (conflict_root plan)). isdir fs a) \<longrightarrow>
        entries plan = map (\<lambda>x. planned x ''skipped_restored'' ''Already restored.'' None) es
        \<and> execute_undo fs plan = (fs, Inr (entries plan)))"
proof (intro conjI impI)
  assume r: "already_restored fs e"
  then show "classify fs conflict_dir e
        = Inr (planned e ''skipped_restored'' ''Already restored.'' None)"
    by (rule classify_already_restored)
  show "undo_entry fs conflict_dir (planned e ''skipped_restored'' ''Already restored.'' None)
        = (fs, Inr (planned e ''skipped_restored'' ''Already restored.'' None))"
    by (rule undo_entry_passes_on)
  assume "status e = Some ''restore'' \<or> status e = Some ''conflict''"
  with r show "undo_entry fs conflict_dir e = (fs, Inr (skipped_restored e))"
    by (rule undo_entry_reclassifies)
next
  assume a: "(\<forall>x \<in> set es. already_restored fs x)
        \<and> prepare_undo_plan fs batch_id es batch_id = Inr plan
        \<and> (\<forall>a \<in> set (ancestors_and_self (conflict_root plan)). isdir fs a)"
  then have all: "\<forall>x \<in> set es. already_restored fs x"
    and prep: "prepare_undo_plan fs batch_id es batch_id = Inr plan"
    and dirs: "\<forall>a \<in> set (ancestors_and_self (conflict_root plan)). isdir fs a"
    by blast+
  from prep
  show e: "entries plan = map (\<lambda>x. planned x ''skipped_restored'' ''Already restored.'' None) es"
    by (auto simp: prepare_undo_plan_def Let_def classify_all_already_restored [OF all]
             split: sum.splits option.splits)
  show "execute_undo fs plan = (fs, Inr (entries plan))"
    unfolding execute_undo_def ensure_directory_existing [OF dirs] e
    by (simp add: undo_entries_pass_on)
qed

theorem undo_is_idempotent_witness:
  "already_restored restored_fs manifest_entry
   \<and> (\<exists>plan. prepare_undo_plan restored_fs ''batch123'' [manifest_entry] ''batch123'' = Inr plan
        \<and> conflict_root plan = [''library'', ''REVIEW'', ''UNDO_CONFLICTS'', ''batch123'']
        \<and> map status (entries plan) = [Some ''skipped_restored'']
        \<and> execute_undo restored_fs plan = (restored_fs, Inr (entries plan)))
   \<and> undo_entry restored_fs [''library'', ''REVIEW'', ''UNDO_CONFLICTS'', ''batch123'']
         (manifest_entry\<lparr>status := Some ''restore''\<rparr>)
       = (restored_fs, Inr (skipped_restored manifest_entry))"
proof -
  have r: "already_restored restored_fs manifest_entry"
    by code_simp
  have r': "already_restored restored_fs (manifest_entry\<lparr>status := Some ''restore''\<rparr>)"
    using r by (simp add: already_restored_def split: option.splits)
  have lib: "infer_library_root [manifest_entry] = Inr (Some [''library''])"
    by code_simp
  obtain plan where p: "prepare_undo_plan restored_fs ''batch123'' [manifest_entry] ''batch123''
      = Inr plan"
    and c: "conflict_root plan = [''library'', ''REVIEW'', ''UNDO_CONFLICTS'', ''batch123'']"
    by (simp add: prepare_undo_plan_def lib Let_def classify_already_restored [OF r] join_def)
  have d: "\<forall>a \<in> set (ancestors_and_self (conflict_root plan)). isdir restored_fs a"
    unfolding c by (simp add: ancestors_and_self_def upt_rec isdir_def restored_fs_def)
  have all: "\<forall>x \<in> set [manifest_entry]. already_restored restored_fs x"
    using r by simp
  from undo_is_idempotent [of restored_fs manifest_entry _ "[manifest_entry]" "''batch123''" plan]
    r all p d
  have whole: "entries plan
          = map (\<lambda>x. planned x ''skipped_restored'' ''Already restored.'' None) [manifest_entry]
        \<and> execute_undo restored_fs plan = (restored_fs, Inr (entries plan))"
    by blast
  from undo_is_idempotent [of restored_fs "manifest_entry\<lparr>status := Some ''restore''\<rparr>"
      "[''library'', ''REVIEW'', ''UNDO_CONFLICTS'', ''batch123'']" "[]" "''batch123''" plan] r'
  have "undo_entry restored_fs [''library'', ''REVIEW'', ''UNDO_CONFLICTS'', ''batch123'']
         (manifest_entry\<lparr>status := Some ''restore''\<rparr>)
       = (restored_fs, Inr (skipped_restored (manifest_entry\<lparr>status := Some ''restore''\<rparr>)))"
    by simp
  then have stale: "undo_entry restored_fs [''library'', ''REVIEW'', ''UNDO_CONFLICTS'', ''batch123'']
         (manifest_entry\<lparr>status := Some ''restore''\<rparr>)
       = (restored_fs, Inr (skipped_restored manifest_entry))"
    by (simp add: skipped_restored_def)
  show ?thesis
    using r p c whole stale by (auto simp: planned_def)
qed

end
